theory Spec2Isabelle
  imports
    Main
    "HOL-Library.Word"
    "HOL-Library.Multiset"
    "HOL-Library.Char_ord"
    "HOL-Library.List_Lexorder"
begin

section \<open>Values, bytes and errors\<close>

text \<open>
  A schema record is a JavaScript object: an ordered list of entries with distinct keys,
  in the order in which the object enumerates them. Numbers are kept to the integers,
  which is all a schema document needs. A property that is missing reads as \<open>None\<close>
  (\<open>undefined\<close>).
\<close>

datatype json =
    JNull
  | JBool bool
  | JNum int
  | JStr string
  | JArr "json list"
  | JObj "(string \<times> json) list"

type_synonym ISchema = "(string \<times> json) list"

type_synonym byte = "8 word"

text \<open>Distinct keys at every nesting level, as every JavaScript object has.\<close>

fun wfJson :: "json \<Rightarrow> bool" where
  "wfJson (JArr xs) = (\<forall>x \<in> set xs. wfJson x)"
| "wfJson (JObj kvs) = (distinct (map fst kvs) \<and> (\<forall>(k, v) \<in> set kvs. wfJson v))"
| "wfJson j = True"

text \<open>
  The errors the SDK raises. Each constructor carries what the source passes to the
  error class; \<open>JsError\<close> is a plain \<open>Error\<close> thrown by a collaborator.
\<close>

datatype SDKError =
    JsError string
  | ObjectUnverifiableError string
  | SchemaIdMismatchError string "json option"
  | CordDispatchError string
  | CordQueryError string

fun jsonText :: "json option \<Rightarrow> string" where
  "jsonText (Some (JStr s)) = s"
| "jsonText (Some JNull) = ''null''"
| "jsonText (Some (JBool True)) = ''true''"
| "jsonText (Some (JBool False)) = ''false''"
| "jsonText (Some (JNum n)) = ''[number]''"
| "jsonText (Some (JArr xs)) = ''[array]''"
| "jsonText (Some (JObj kvs)) = ''[object Object]''"
| "jsonText None = ''undefined''"

text \<open>
  \<open>error.message\<close> and the text of \<open>`${error}`\<close> (name, colon, message). The error
  classes are not in the source tree: the message of \<open>SchemaIdMismatchError\<close> is built
  from the two identifiers it is given, and no property below depends on its wording.
\<close>

fun message :: "SDKError \<Rightarrow> string" where
  "message (JsError m) = m"
| "message (ObjectUnverifiableError m) = m"
| "message (SchemaIdMismatchError fromSchema provided) =
     ''Provided $id \"'' @ jsonText provided @ ''\" does not match schema $id \"'' @ fromSchema @ ''\"''"
| "message (CordDispatchError m) = m"
| "message (CordQueryError m) = m"

fun errorName :: "SDKError \<Rightarrow> string" where
  "errorName (JsError m) = ''Error''"
| "errorName (ObjectUnverifiableError m) = ''ObjectUnverifiableError''"
| "errorName (SchemaIdMismatchError a b) = ''SchemaIdMismatchError''"
| "errorName (CordDispatchError m) = ''CordDispatchError''"
| "errorName (CordQueryError m) = ''CordQueryError''"

definition toString :: "SDKError \<Rightarrow> string" where
  "toString e = errorName e @ '': '' @ message e"

section \<open>Collaborators outside the source tree\<close>

text \<open>
  The functions below are called by the source but live in libraries or in packages
  that are not part of the examined tree. They are parameters of the model:
  the CBOR encoder, the Blake2 hash, the SCALE encoders of the chain API, the
  identifier package, the schema prefix constant and the \<open>uri\<close> format checker of the
  JSON Schema validator. A function that can throw returns a sum.
\<close>

record env =
  cborEncode :: "json \<Rightarrow> byte list"
  blake2AsHex :: "byte list \<Rightarrow> string"
  createTypeBytes :: "string \<Rightarrow> byte list"
  createTypeAccountId :: "string \<Rightarrow> SDKError + byte list"
  hashToUri :: "string \<Rightarrow> nat \<Rightarrow> string \<Rightarrow> string"
  uriToIdentifier :: "json option \<Rightarrow> SDKError + string"
  uriToEntryIdAndDigest :: "string \<Rightarrow> SDKError + (string \<times> string)"
  SCHEMA_PREFIX :: string
  formatUri :: "string \<Rightarrow> bool"

section \<open>Canonical encoder (SchemaAccounts.ts)\<close>

text \<open>
  Modelled from the spec: \<open>jsonabc.sortObj\<close> is not in the source tree. The spec says
  the encoder "recursively sorts object keys in a fixed, locale-independent
  lexicographic order at every nesting level"; array elements keep their order.
\<close>

fun sortObj :: "json \<Rightarrow> json" where
  "sortObj (JArr xs) = JArr (map sortObj xs)"
| "sortObj (JObj kvs) = JObj (sort_key fst (map (\<lambda>(k, v). (k, sortObj v)) kvs))"
| "sortObj j = j"

text \<open>\<open>Buffer.toString('base64')\<close>: the standard alphabet, padded with \<open>=\<close>.\<close>

definition base64Alphabet :: string where
  "base64Alphabet = ''ABCDEFGHIJKLMNOPQRSTUVWXYZabcdefghijklmnopqrstuvwxyz0123456789+/''"

definition b64 :: "nat \<Rightarrow> char" where
  "b64 n = base64Alphabet ! (n mod 64)"

fun toBase64 :: "byte list \<Rightarrow> string" where
  "toBase64 [] = []"
| "toBase64 [a] =
     (let n = unat a in [b64 (n div 4), b64 ((n mod 4) * 16), CHR ''='', CHR ''=''])"
| "toBase64 [a, b] =
     (let n = unat a * 256 + unat b
      in [b64 (n div 1024), b64 (n div 16), b64 ((n mod 16) * 4), CHR ''=''])"
| "toBase64 (a # b # c # rest) =
     (let n = unat a * 65536 + unat b * 256 + unat c
      in [b64 (n div 262144), b64 (n div 4096), b64 (n div 64), b64 n] @ toBase64 rest)"

text \<open>The bytes of a string of one-byte characters.\<close>

definition stringToU8a :: "string \<Rightarrow> byte list" where
  "stringToU8a s = map (\<lambda>c. of_nat (of_char c)) s"

text \<open>\<open>const { $id, ...schemaWithoutId } = schema\<close>\<close>

definition schemaWithoutId :: "ISchema \<Rightarrow> ISchema" where
  "schemaWithoutId schema = filter (\<lambda>(k, v). k \<noteq> ''$id'') schema"

definition encodeCborSchema :: "env \<Rightarrow> ISchema \<Rightarrow> string" where
  "encodeCborSchema E schema =
     (let sortedSchema = sortObj (JObj (schemaWithoutId schema));
          encodedSchema = cborEncode E sortedSchema;
          cborSchema = toBase64 encodedSchema
      in cborSchema)"

section \<open>Digest and identifier (SchemaAccounts.ts, SchemaAccounts.chain.ts)\<close>

text \<open>
  Modelled from the spec: \<open>Crypto.hashStr\<close> is not in the source tree. The spec's
  \<open>Digest = Hash(bytes)\<close>: the hash of the bytes of the string it is given.
\<close>

definition hashStr :: "env \<Rightarrow> string \<Rightarrow> string" where
  "hashStr E s = blake2AsHex E (stringToU8a s)"

definition getHashForSchema :: "env \<Rightarrow> ISchema \<Rightarrow> string" where
  "getHashForSchema E schema =
     (let encodedSchema = encodeCborSchema E schema in hashStr E encodedSchema)"

definition SCHEMA_ACCOUNTS_IDENT :: nat where
  "SCHEMA_ACCOUNTS_IDENT = 10501"

text \<open>The result \<open>{ uri, digest }\<close> is the pair \<open>(uri, digest)\<close>.\<close>

definition getUriForSchema :: "env \<Rightarrow> ISchema \<Rightarrow> string \<times> string" where
  "getUriForSchema E schema =
     (let serializedSchema = encodeCborSchema E schema;
          digest = hashStr E serializedSchema;
          scaleEncodedSchema = createTypeBytes E serializedSchema;
          IdDigest = blake2AsHex E scaleEncodedSchema;
          schemaUri = hashToUri E IdDigest SCHEMA_ACCOUNTS_IDENT (SCHEMA_PREFIX E)
      in (schemaUri, digest))"

text \<open>The raw binary canonical form of a record: the CBOR bytes of its sorted content.\<close>

definition canonicalBytes :: "env \<Rightarrow> ISchema \<Rightarrow> byte list" where
  "canonicalBytes E r = cborEncode E (sortObj (JObj (schemaWithoutId r)))"


section \<open>The ledger gateway\<close>

text \<open>
  The chain is an external collaborator with a state of its own, \<open>'l\<close>. The source
  reaches it through storage queries (\<open>api.query\<close>) and through
  \<open>Chain.signAndSubmitTx\<close>; both are parameters. The model keeps the list of calls made
  to the gateway, so that what was queried and what was submitted can be observed.
\<close>

type_synonym account = string

datatype extrinsic =
    EntriesCreate string string string "string option"
  | EntriesUpdate string string string "string option"
  | EntriesRevoke string string
  | EntriesReinstate string string
  | EntriesUpdateOwnership string string string string
  | SchemaAccountsCreate string

record RegistryEntryDetails =
  storedDigest :: string
  revoked :: bool
  creator :: string
  registryId :: string

record SchemaEntry =
  storedSchema :: string
  schemaDigest :: string
  schemaCreator :: string

record 'l gateway =
  registryEntries :: "'l \<Rightarrow> string \<Rightarrow> SDKError + RegistryEntryDetails option"
  schemas :: "'l \<Rightarrow> string \<Rightarrow> SDKError + SchemaEntry option"
  submit :: "extrinsic \<Rightarrow> account \<Rightarrow> 'l \<Rightarrow> (SDKError + unit) \<times> 'l"

datatype gatewayCall =
    QueryRegistryEntries string
  | QuerySchemas string
  | SignAndSubmitTx extrinsic account

record 'l world =
  ledger :: 'l
  calls :: "gatewayCall list"

text \<open>
  An asynchronous function of the source is a computation over the world that either
  throws or returns: \<open>await\<close> is sequencing, \<open>try/catch\<close> is \<open>catchM\<close>.
\<close>

type_synonym ('a, 'l) chainM = "'l world \<Rightarrow> (SDKError + 'a) \<times> 'l world"

definition returnM :: "'a \<Rightarrow> ('a, 'l) chainM" where
  "returnM a = (\<lambda>w. (Inr a, w))"

definition throwM :: "SDKError \<Rightarrow> ('a, 'l) chainM" where
  "throwM e = (\<lambda>w. (Inl e, w))"

definition liftE :: "SDKError + 'a \<Rightarrow> ('a, 'l) chainM" where
  "liftE r = (\<lambda>w. (r, w))"

definition thenM :: "('a, 'l) chainM \<Rightarrow> ('a \<Rightarrow> ('b, 'l) chainM) \<Rightarrow> ('b, 'l) chainM" where
  "thenM m f = (\<lambda>w. case m w of (Inl e, w') \<Rightarrow> (Inl e, w') | (Inr a, w') \<Rightarrow> f a w')"

definition catchM :: "('a, 'l) chainM \<Rightarrow> (SDKError \<Rightarrow> ('a, 'l) chainM) \<Rightarrow> ('a, 'l) chainM" where
  "catchM m h = (\<lambda>w. case m w of (Inl e, w') \<Rightarrow> h e w' | (Inr a, w') \<Rightarrow> (Inr a, w'))"

definition queryRegistryEntries ::
  "'l gateway \<Rightarrow> string \<Rightarrow> (RegistryEntryDetails option, 'l) chainM" where
  "queryRegistryEntries G registryEntryId =
     (\<lambda>w. (registryEntries G (ledger w) registryEntryId,
           w\<lparr>calls := calls w @ [QueryRegistryEntries registryEntryId]\<rparr>))"

definition querySchemas :: "'l gateway \<Rightarrow> string \<Rightarrow> (SchemaEntry option, 'l) chainM" where
  "querySchemas G identifier =
     (\<lambda>w. (schemas G (ledger w) identifier,
           w\<lparr>calls := calls w @ [QuerySchemas identifier]\<rparr>))"

definition signAndSubmitTx :: "'l gateway \<Rightarrow> extrinsic \<Rightarrow> account \<Rightarrow> (unit, 'l) chainM" where
  "signAndSubmitTx G extrinsic authorAccount =
     (\<lambda>w. case submit G extrinsic authorAccount (ledger w) of
            (r, l') \<Rightarrow> (r, \<lparr>ledger = l', calls = calls w @ [SignAndSubmitTx extrinsic authorAccount]\<rparr>))"

section \<open>Entry lifecycle (Entries.chain.ts)\<close>

record IRegistryEntry =
  entryUri :: string
  authorizationUri :: string
  entryDigest :: string
  blob :: "string option"
  registryUri :: string
  entryCreatorUri :: string

definition isRegistryEntryStored :: "'l gateway \<Rightarrow> string \<Rightarrow> (bool, 'l) chainM" where
  "isRegistryEntryStored G registryEntryId =
     catchM
       (thenM (queryRegistryEntries G registryEntryId) (\<lambda>encoded.
          returnM (encoded \<noteq> None)))
       (\<lambda>error. throwM (CordQueryError (''Error querying the registry-entry: '' @ toString error)))"

definition dispatchCreateEntryToChain ::
  "env \<Rightarrow> 'l gateway \<Rightarrow> IRegistryEntry \<Rightarrow> account \<Rightarrow> (string, 'l) chainM" where
  "dispatchCreateEntryToChain E G registryEntryDetails authorAccount =
     catchM
       (thenM (liftE (uriToEntryIdAndDigest E (entryUri registryEntryDetails))) (\<lambda>registryEntryObj.
        let registryEntryId = fst registryEntryObj in
        thenM (liftE (uriToIdentifier E (Some (JStr (authorizationUri registryEntryDetails))))) (\<lambda>authorizationId.
        thenM (isRegistryEntryStored G registryEntryId) (\<lambda>registryEntryExists.
        if registryEntryExists then
          throwM (CordDispatchError
            (''Registry Entry already exists at URI: \"'' @ entryUri registryEntryDetails @ ''\".''))
        else
          let extrinsic = EntriesCreate registryEntryId authorizationId
                (entryDigest registryEntryDetails) (blob registryEntryDetails) in
          thenM (signAndSubmitTx G extrinsic authorAccount) (\<lambda>_.
          returnM (entryUri registryEntryDetails))))))
       (\<lambda>error. throwM (CordDispatchError
          (''Error dispatching to chain: \"'' @ message error @ ''\".'')))"

definition dispatchUpdateEntryToChain ::
  "env \<Rightarrow> 'l gateway \<Rightarrow> IRegistryEntry \<Rightarrow> account \<Rightarrow> (string, 'l) chainM" where
  "dispatchUpdateEntryToChain E G registryEntryDetails authorAccount =
     catchM
       (thenM (liftE (uriToEntryIdAndDigest E (entryUri registryEntryDetails))) (\<lambda>registryEntryObj.
        let registryEntryId = fst registryEntryObj in
        thenM (liftE (uriToIdentifier E (Some (JStr (authorizationUri registryEntryDetails))))) (\<lambda>authorizationId.
        thenM (isRegistryEntryStored G registryEntryId) (\<lambda>registryEntryExists.
        if \<not> registryEntryExists then
          throwM (CordDispatchError
            (''Registry Entry does not exists at URI: \"'' @ entryUri registryEntryDetails @ ''\".''))
        else
          let extrinsic = EntriesUpdate registryEntryId authorizationId
                (entryDigest registryEntryDetails) (blob registryEntryDetails) in
          thenM (signAndSubmitTx G extrinsic authorAccount) (\<lambda>_.
          returnM (entryUri registryEntryDetails))))))
       (\<lambda>error. throwM (CordDispatchError
          (''Error dispatching to chain: \"'' @ message error @ ''\".'')))"

definition dispatchRevokeEntryToChain ::
  "env \<Rightarrow> 'l gateway \<Rightarrow> string \<Rightarrow> string \<Rightarrow> account \<Rightarrow> (string, 'l) chainM" where
  "dispatchRevokeEntryToChain E G registryEntryUri authorizationUri' authorAccount =
     thenM (liftE (uriToEntryIdAndDigest E registryEntryUri)) (\<lambda>registryEntryObj.
     let registryEntryId = fst registryEntryObj in
     thenM (liftE (uriToIdentifier E (Some (JStr authorizationUri')))) (\<lambda>authorizationId.
     thenM (isRegistryEntryStored G registryEntryId) (\<lambda>registryEntryExists.
     if \<not> registryEntryExists then
       throwM (CordDispatchError
         (''Registry Entry does not exists at URI: \"'' @ registryEntryUri @ ''\".''))
     else
       catchM
         (let extrinsic = EntriesRevoke registryEntryId authorizationId in
          thenM (signAndSubmitTx G extrinsic authorAccount) (\<lambda>_.
          returnM registryEntryUri))
         (\<lambda>error. throwM (CordDispatchError
            (''Error dispatching to chain: \"'' @ message error @ ''\".''))))))"

definition dispatchReinstateEntryToChain ::
  "env \<Rightarrow> 'l gateway \<Rightarrow> string \<Rightarrow> string \<Rightarrow> account \<Rightarrow> (string, 'l) chainM" where
  "dispatchReinstateEntryToChain E G registryEntryUri authorizationUri' authorAccount =
     thenM (liftE (uriToEntryIdAndDigest E registryEntryUri)) (\<lambda>registryEntryObj.
     let registryEntryId = fst registryEntryObj in
     thenM (liftE (uriToIdentifier E (Some (JStr authorizationUri')))) (\<lambda>authorizationId.
     thenM (isRegistryEntryStored G registryEntryId) (\<lambda>registryEntryExists.
     if \<not> registryEntryExists then
       throwM (CordDispatchError
         (''Registry Entry does not exists at URI: \"'' @ registryEntryUri @ ''\".''))
     else
       catchM
         (let extrinsic = EntriesReinstate registryEntryId authorizationId in
          thenM (signAndSubmitTx G extrinsic authorAccount) (\<lambda>_.
          returnM registryEntryUri))
         (\<lambda>error. throwM (CordDispatchError
            (''Error dispatching to chain: \"'' @ message error @ ''\".''))))))"

text \<open>\<open>JSON.stringify\<close> of a string: quoted, with quotes, backslashes and control characters escaped.\<close>

definition hexDigit :: "nat \<Rightarrow> char" where
  "hexDigit n = ''0123456789abcdef'' ! (n mod 16)"

definition escapeChar :: "char \<Rightarrow> string" where
  "escapeChar c =
     (if c = CHR 0x22 then [CHR 0x5C, CHR 0x22]
      else if c = CHR 0x5C then [CHR 0x5C, CHR 0x5C]
      else if c = CHR 0x08 then [CHR 0x5C, CHR ''b'']
      else if c = CHR 0x0C then [CHR 0x5C, CHR ''f'']
      else if c = CHR 0x0A then [CHR 0x5C, CHR ''n'']
      else if c = CHR 0x0D then [CHR 0x5C, CHR ''r'']
      else if c = CHR 0x09 then [CHR 0x5C, CHR ''t'']
      else if (of_char c :: nat) < 32 then
        [CHR 0x5C, CHR ''u'', CHR ''0'', CHR ''0'', hexDigit (of_char c div 16), hexDigit (of_char c)]
      else [c])"

definition jsonStringify :: "string \<Rightarrow> string" where
  "jsonStringify s = [CHR 0x22] @ concat (map escapeChar s) @ [CHR 0x22]"

definition dispatchUpdateOwnershipToChain ::
  "env \<Rightarrow> 'l gateway \<Rightarrow> string \<Rightarrow> string \<Rightarrow> string \<Rightarrow> string \<Rightarrow> account \<Rightarrow> (string, 'l) chainM" where
  "dispatchUpdateOwnershipToChain E G registryEntryUri authorizationUri' newOwnerAccount
       newOwnerAuthorizationUri authorAccount =
     catchM
       (thenM (liftE (uriToEntryIdAndDigest E registryEntryUri)) (\<lambda>registryEntryObj.
        let registryEntryId = fst registryEntryObj in
        thenM (liftE (uriToIdentifier E (Some (JStr authorizationUri')))) (\<lambda>authorizationId.
        thenM (liftE (uriToIdentifier E (Some (JStr newOwnerAuthorizationUri)))) (\<lambda>newOwnerAuthorizationId.
        thenM (isRegistryEntryStored G registryEntryId) (\<lambda>registryEntryExists.
        if \<not> registryEntryExists then
          throwM (CordDispatchError
            (''Registry Entry does not exists at URI: \"'' @ registryEntryUri @ ''\".''))
        else
          let extrinsic = EntriesUpdateOwnership registryEntryId authorizationId
                newOwnerAccount newOwnerAuthorizationId in
          thenM (signAndSubmitTx G extrinsic authorAccount) (\<lambda>_.
          returnM registryEntryUri))))))
       (\<lambda>error. throwM (CordDispatchError
          (''Error dispatching to chain: \"'' @ jsonStringify (message error) @ ''\".'')))"

section \<open>Schema anchoring (SchemaAccounts.chain.ts)\<close>

definition isSchemaStored :: "env \<Rightarrow> 'l gateway \<Rightarrow> ISchema \<Rightarrow> (bool, 'l) chainM" where
  "isSchemaStored E G schema =
     thenM (liftE (uriToIdentifier E (map_of schema ''$id''))) (\<lambda>identifier.
     thenM (querySchemas G identifier) (\<lambda>encoded.
     returnM (encoded \<noteq> None)))"

definition dispatchToChain ::
  "env \<Rightarrow> 'l gateway \<Rightarrow> ISchema \<Rightarrow> account \<Rightarrow> (json option, 'l) chainM" where
  "dispatchToChain E G schema authorAccount =
     catchM
       (thenM (isSchemaStored E G schema) (\<lambda>exists.
        if exists then returnM (map_of schema ''$id'')
        else
          let encodedSchema = encodeCborSchema E schema;
              extrinsic = SchemaAccountsCreate encodedSchema in
          thenM (signAndSubmitTx G extrinsic authorAccount) (\<lambda>_.
          returnM (map_of schema ''$id''))))
       (\<lambda>error. throwM (CordDispatchError
          (''Error dispatching to chain: \"'' @ toString error @ ''\".'')))"

section \<open>Authorization identifier (Namespace.ts)\<close>



definition bindE :: "SDKError + 'a \<Rightarrow> ('a \<Rightarrow> SDKError + 'b) \<Rightarrow> SDKError + 'b" where
  "bindE r f = (case r of Inl e \<Rightarrow> Inl e | Inr a \<Rightarrow> f a)"


section \<open>JSON Schema keywords (draft-07)\<close>

text \<open>
  A schema denotes the set of values it accepts. Each keyword constrains only the
  values of the kind it speaks about and accepts every other value.
\<close>

definition typeObject :: "json \<Rightarrow> bool" where
  "typeObject j = (case j of JObj kvs \<Rightarrow> True | _ \<Rightarrow> False)"

definition typeString :: "json \<Rightarrow> bool" where
  "typeString j = (case j of JStr s \<Rightarrow> True | _ \<Rightarrow> False)"

definition typeBoolean :: "json \<Rightarrow> bool" where
  "typeBoolean j = (case j of JBool b \<Rightarrow> True | _ \<Rightarrow> False)"

definition typeNumber :: "json \<Rightarrow> bool" where
  "typeNumber j = (case j of JNum n \<Rightarrow> True | _ \<Rightarrow> False)"

definition typeArray :: "json \<Rightarrow> bool" where
  "typeArray j = (case j of JArr xs \<Rightarrow> True | _ \<Rightarrow> False)"

definition constIs :: "json \<Rightarrow> json \<Rightarrow> bool" where
  "constIs c j = (j = c)"

definition enumIs :: "json list \<Rightarrow> json \<Rightarrow> bool" where
  "enumIs cs j = (j \<in> set cs)"

definition patternIs :: "(string \<Rightarrow> bool) \<Rightarrow> json \<Rightarrow> bool" where
  "patternIs m j = (case j of JStr s \<Rightarrow> m s | _ \<Rightarrow> True)"

definition formatIs :: "(string \<Rightarrow> bool) \<Rightarrow> json \<Rightarrow> bool" where
  "formatIs f j = (case j of JStr s \<Rightarrow> f s | _ \<Rightarrow> True)"

definition requiredAll :: "string list \<Rightarrow> json \<Rightarrow> bool" where
  "requiredAll ks j = (case j of JObj kvs \<Rightarrow> (\<forall>k \<in> set ks. k \<in> fst ` set kvs) | _ \<Rightarrow> True)"

definition propertyIs :: "string \<Rightarrow> (json \<Rightarrow> bool) \<Rightarrow> json \<Rightarrow> bool" where
  "propertyIs k P j =
     (case j of JObj kvs \<Rightarrow> (case map_of kvs k of Some v \<Rightarrow> P v | None \<Rightarrow> True) | _ \<Rightarrow> True)"

definition patternPropertiesAll :: "(string \<Rightarrow> bool) \<Rightarrow> (json \<Rightarrow> bool) \<Rightarrow> json \<Rightarrow> bool" where
  "patternPropertiesAll m P j =
     (case j of JObj kvs \<Rightarrow> (\<forall>(k, v) \<in> set kvs. m k \<longrightarrow> P v) | _ \<Rightarrow> True)"

definition additionalPropertiesFalse :: "string list \<Rightarrow> json \<Rightarrow> bool" where
  "additionalPropertiesFalse ks j =
     (case j of JObj kvs \<Rightarrow> (\<forall>(k, v) \<in> set kvs. k \<in> set ks) | _ \<Rightarrow> True)"

definition itemsAll :: "(json \<Rightarrow> bool) \<Rightarrow> json \<Rightarrow> bool" where
  "itemsAll P j = (case j of JArr xs \<Rightarrow> (\<forall>x \<in> set xs. P x) | _ \<Rightarrow> True)"

definition oneOf :: "bool list \<Rightarrow> bool" where
  "oneOf bs = (length (filter (\<lambda>b. b) bs) = 1)"

definition allOf :: "bool list \<Rightarrow> bool" where
  "allOf bs = list_all (\<lambda>b. b) bs"

text \<open>The regular expressions of the meta-schema, as matchers.\<close>

definition isAlnum :: "char \<Rightarrow> bool" where
  "isAlnum c = ((CHR ''0'' \<le> c \<and> c \<le> CHR ''9'') \<or> (CHR ''a'' \<le> c \<and> c \<le> CHR ''z'')
                \<or> (CHR ''A'' \<le> c \<and> c \<le> CHR ''Z''))"

definition lineTerminator :: "char \<Rightarrow> bool" where
  "lineTerminator c = (c = CHR 0x0A \<or> c = CHR 0x0D)"

text \<open>\<open>^.+$\<close>\<close>

definition anyName :: "string \<Rightarrow> bool" where
  "anyName s = (s \<noteq> [] \<and> (\<forall>c \<in> set s. \<not> lineTerminator c))"

text \<open>\<open>^schema:cord:m[0-9a-zA-Z]+$\<close>\<close>

definition schemaIdPattern :: "string \<Rightarrow> bool" where
  "schemaIdPattern s =
     (take 13 s = ''schema:cord:m'' \<and> drop 13 s \<noteq> [] \<and> (\<forall>c \<in> set (drop 13 s). isAlnum c))"

text \<open>\<open>^schema:cord:m[0-9a-zA-Z]+(#/properties/.+)?$\<close>\<close>

definition schemaRefPattern :: "string \<Rightarrow> bool" where
  "schemaRefPattern s =
     (let rest = drop 13 s; name = takeWhile isAlnum rest; tail = dropWhile isAlnum rest
      in take 13 s = ''schema:cord:m'' \<and> name \<noteq> [] \<and>
         (tail = [] \<or> (take 13 tail = ''#/properties/'' \<and> anyName (drop 13 tail))))"

lemma propertyIs_cong [fundef_cong]:
  "j = j' \<Longrightarrow> k = k' \<Longrightarrow>
   (\<And>kvs v. j' = JObj kvs \<Longrightarrow> map_of kvs k' = Some v \<Longrightarrow> P v = P' v) \<Longrightarrow>
   propertyIs k P j = propertyIs k' P' j'"
  by (auto simp: propertyIs_def split: json.splits option.splits)

lemma patternPropertiesAll_cong [fundef_cong]:
  "j = j' \<Longrightarrow> m = m' \<Longrightarrow>
   (\<And>kvs k v. j' = JObj kvs \<Longrightarrow> (k, v) \<in> set kvs \<Longrightarrow> P v = P' v) \<Longrightarrow>
   patternPropertiesAll m P j = patternPropertiesAll m' P' j'"
  by (auto simp: patternPropertiesAll_def split: json.splits)

lemma size_entry_less: "(k, v) \<in> set kvs \<Longrightarrow> size v < size (JObj kvs)"
proof -
  assume "(k, v) \<in> set kvs"
  then have "size_prod (\<lambda>x. 0) size (k, v) \<le> size_list (size_prod (\<lambda>x. 0) size) kvs"
    by (rule size_list_estimation') simp
  then show ?thesis by simp
qed

lemma size_map_of_less: "map_of kvs k = Some v \<Longrightarrow> size v < size (JObj kvs)"
  by (rule size_entry_less) (erule map_of_SomeD)

section \<open>The meta-schema (Schema.types.ts)\<close>

definition SchemaModelV1_id :: string where
  "SchemaModelV1_id = ''http://cord.network/draft-01/schema#''"

definition def_schemaReference :: "env \<Rightarrow> json \<Rightarrow> bool" where
  "def_schemaReference E j =
     (additionalPropertiesFalse [''$ref''] j \<and>
      propertyIs ''$ref''
        (\<lambda>v. patternIs schemaRefPattern v \<and> formatIs (formatUri E) v \<and> typeString v) j \<and>
      requiredAll [''$ref''] j)"

definition def_string :: "json \<Rightarrow> bool" where
  "def_string j =
     (additionalPropertiesFalse [''type'', ''format'', ''enum'', ''minLength'', ''maxLength''] j \<and>
      propertyIs ''type'' (constIs (JStr ''string'')) j \<and>
      propertyIs ''format'' (enumIs [JStr ''date'', JStr ''time'', JStr ''uri'']) j \<and>
      propertyIs ''enum'' (\<lambda>v. typeArray v \<and> itemsAll typeString v) j \<and>
      propertyIs ''minLength'' typeNumber j \<and>
      propertyIs ''maxLength'' typeNumber j \<and>
      requiredAll [''type''] j)"

definition def_boolean :: "json \<Rightarrow> bool" where
  "def_boolean j =
     (additionalPropertiesFalse [''type''] j \<and>
      propertyIs ''type'' (constIs (JStr ''boolean'')) j \<and>
      requiredAll [''type''] j)"

definition def_number :: "json \<Rightarrow> bool" where
  "def_number j =
     (additionalPropertiesFalse [''type'', ''enum'', ''minimum'', ''maximum''] j \<and>
      propertyIs ''type'' (enumIs [JStr ''integer'', JStr ''number'']) j \<and>
      propertyIs ''enum'' (\<lambda>v. typeArray v \<and> itemsAll typeNumber v) j \<and>
      propertyIs ''minimum'' typeNumber j \<and>
      propertyIs ''maximum'' typeNumber j \<and>
      requiredAll [''type''] j)"

definition def_array :: "env \<Rightarrow> json \<Rightarrow> bool" where
  "def_array E j =
     (additionalPropertiesFalse [''type'', ''items'', ''minItems'', ''maxItems''] j \<and>
      propertyIs ''type'' (constIs (JStr ''array'')) j \<and>
      propertyIs ''items''
        (\<lambda>v. oneOf [def_string v, def_number v, def_boolean v, def_schemaReference E v]) j \<and>
      propertyIs ''minItems'' typeNumber j \<and>
      propertyIs ''maxItems'' typeNumber j \<and>
      requiredAll [''type'', ''items''] j)"

text \<open>
  In the \<open>object\<close> definition the property named \<open>patternProperties\<close> has a schema whose
  only member is \<open>'^.+$'\<close>, which is not a keyword: that schema accepts every value.
\<close>

function def_object :: "env \<Rightarrow> json \<Rightarrow> bool" where
  "def_object E j =
     (additionalPropertiesFalse [''type'', ''properties'', ''patternProperties''] j \<and>
      propertyIs ''type'' (constIs (JStr ''object'')) j \<and>
      propertyIs ''properties''
        (\<lambda>p. typeObject p \<and>
              patternPropertiesAll anyName
                (\<lambda>v. oneOf [def_string v, def_number v, def_boolean v, def_schemaReference E v,
                             def_array E v, def_object E v]) p) j \<and>
      propertyIs ''patternProperties'' (\<lambda>v. True) j \<and>
      requiredAll [''type''] j)"
  by pat_completeness auto
termination
proof (relation "measure (\<lambda>(E, j). size j)")
  show "wf (measure (\<lambda>(E, j). size j))" by simp
next
  fix E :: env and j p :: json and kvs ps :: "(string \<times> json) list" and k :: string and v :: json
  assume j: "j = JObj kvs" and p: "map_of kvs ''properties'' = Some p" and ps: "p = JObj ps"
    and v: "(k, v) \<in> set ps"
  have "size v < size p" unfolding ps using v by (rule size_entry_less)
  moreover have "size p < size j" unfolding j using p by (rule size_map_of_less)
  ultimately show "((E, v), (E, j)) \<in> measure (\<lambda>(E, j). size j)" by simp
qed

declare def_object.simps [simp del]

definition SchemaModelV1 :: "env \<Rightarrow> json \<Rightarrow> bool" where
  "SchemaModelV1 E j =
     (typeObject j \<and>
      propertyIs ''$id'' (\<lambda>v. patternIs schemaIdPattern v \<and> typeString v) j \<and>
      propertyIs ''$schema'' typeString j \<and>
      propertyIs ''$metadata''
        (\<lambda>m. typeObject m \<and>
              propertyIs ''version'' typeString m \<and>
              propertyIs ''slug'' typeString m \<and>
              propertyIs ''discoverable'' typeBoolean m) j \<and>
      propertyIs ''title'' typeString j \<and>
      propertyIs ''description'' typeString j \<and>
      propertyIs ''type'' (\<lambda>v. constIs (JStr ''object'') v \<and> typeString v) j \<and>
      propertyIs ''properties''
        (\<lambda>p. patternPropertiesAll anyName
                (\<lambda>v. oneOf [def_string v, def_number v, def_boolean v, def_schemaReference E v,
                             def_array E v, def_object E v]) p \<and>
              typeObject p) j \<and>
      propertyIs ''additionalProperties'' (\<lambda>v. constIs (JBool False) v \<and> typeBoolean v) j \<and>
      propertyIs ''required'' (\<lambda>v. typeArray v \<and> itemsAll typeString v) j \<and>
      additionalPropertiesFalse
        [''$id'', ''$schema'', ''$metadata'', ''title'', ''description'', ''type'', ''properties'',
         ''additionalProperties'', ''required''] j \<and>
      requiredAll [''$id'', ''$schema'', ''additionalProperties'', ''properties'', ''title'', ''type''] j)"

definition SchemaModel :: "env \<Rightarrow> json \<Rightarrow> bool" where
  "SchemaModel E j =
     allOf
       [propertyIs ''$schema'' (\<lambda>v. typeString v \<and> constIs (JStr SchemaModelV1_id) v) j,
        SchemaModelV1 E j]"

section \<open>Structural validator (SchemaAccounts.ts)\<close>

text \<open>
  A value of type \<open>unknown\<close> is a JSON value or one of the values that are not JSON.
  The validator of the library accepts the first kind only: for a value whose \<open>typeof\<close>
  is \<open>undefined\<close>, \<open>bigint\<close>, \<open>function\<close> or \<open>symbol\<close> the call \<open>validator.validate\<close>
  throws a plain \<open>Error\<close>.
\<close>

datatype unknown =
    JsonValue json
  | JsUndefined
  | JsBigInt int
  | JsFunction
  | JsSymbol

fun typeof :: "unknown \<Rightarrow> string" where
  "typeof (JsonValue (JBool b)) = ''boolean''"
| "typeof (JsonValue (JNum n)) = ''number''"
| "typeof (JsonValue (JStr s)) = ''string''"
| "typeof (JsonValue j) = ''object''"
| "typeof JsUndefined = ''undefined''"
| "typeof (JsBigInt n) = ''bigint''"
| "typeof JsFunction = ''function''"
| "typeof JsSymbol = ''symbol''"

definition validate :: "(json \<Rightarrow> bool) \<Rightarrow> unknown \<Rightarrow> SDKError + bool" where
  "validate schema instance =
     (case instance of
        JsonValue j \<Rightarrow> Inr (schema j)
      | _ \<Rightarrow> Inl (JsError (''Instances of \"'' @ typeof instance @ ''\" type are not supported.'')))"

text \<open>
  The validator is given the schema as its denotation. The optional arguments
  \<open>messages\<close> and \<open>referencedSchemas\<close> are left out: no caller in this module passes them.
\<close>

definition verifyObjectAgainstSchema :: "unknown \<Rightarrow> (json \<Rightarrow> bool) \<Rightarrow> SDKError + unit" where
  "verifyObjectAgainstSchema object schema =
     bindE (validate schema object) (\<lambda>valid.
     if valid then Inr ()
     else Inl (ObjectUnverifiableError ''JSON schema verification failed for object''))"


definition verifyDataStructure :: "env \<Rightarrow> unknown \<Rightarrow> SDKError + unit" where
  "verifyDataStructure E input = verifyObjectAgainstSchema input (SchemaModel E)"

record ISchemaAccountsDetails =
  schema :: ISchema
  digest :: string
  creatorUri :: string



text \<open>\<open>try { body } catch (error) { handler }\<close>\<close>

definition tryCatch :: "(SDKError + 'a) \<Rightarrow> (SDKError \<Rightarrow> SDKError + 'a) \<Rightarrow> SDKError + 'a" where
  "tryCatch body handler = (case body of Inl error \<Rightarrow> handler error | Inr a \<Rightarrow> Inr a)"

definition isISchema :: "env \<Rightarrow> unknown \<Rightarrow> SDKError + bool" where
  "isISchema E input =
     tryCatch
       (bindE (verifyDataStructure E input) (\<lambda>_. Inr True))
       (\<lambda>error. Inr False)"

section \<open>Relations between records\<close>

text \<open>
  \<open>permuteKeys r r'\<close>: \<open>r'\<close> is \<open>r\<close> with the entries of its objects reordered, at any
  nesting level. \<open>differOnlyInId r r'\<close>: the two records have the same entries once the
  \<open>$id\<close> entry is left out.
\<close>

inductive permuteKeys :: "json \<Rightarrow> json \<Rightarrow> bool" where
  same: "permuteKeys j j"
| arr: "list_all2 permuteKeys xs ys \<Longrightarrow> permuteKeys (JArr xs) (JArr ys)"
| obj: "list_all2 (\<lambda>p q. fst p = fst q \<and> permuteKeys (snd p) (snd q)) kvs kvs' \<Longrightarrow>
        mset kvs'' = mset kvs' \<Longrightarrow> permuteKeys (JObj kvs) (JObj kvs'')"

definition differOnlyInId :: "ISchema \<Rightarrow> ISchema \<Rightarrow> bool" where
  "differOnlyInId r r' =
     (filter (\<lambda>kv. fst kv \<noteq> ''$id'') r = filter (\<lambda>kv. fst kv \<noteq> ''$id'') r')"


section \<open>Stand-ins for the collaborators\<close>

text \<open>
  The collaborators are instantiated with simple deterministic functions when the model
  is evaluated on a concrete record: a plain CBOR encoder, the hexadecimal text of the
  bytes in place of the hash (so that it has no collisions), a length-prefixed byte
  encoding, and a URI that keeps the digest.
\<close>

definition cborHead :: "nat \<Rightarrow> nat \<Rightarrow> byte list" where
  "cborHead major n =
     (if n < 24 then [of_nat (major * 32 + n)]
      else if n < 256 then [of_nat (major * 32 + 24), of_nat n]
      else [of_nat (major * 32 + 25), of_nat (n div 256), of_nat n])"

fun cborPlain :: "json \<Rightarrow> byte list" where
  "cborPlain JNull = [0xF6]"
| "cborPlain (JBool b) = (if b then [0xF5] else [0xF4])"
| "cborPlain (JNum n) = (if 0 \<le> n then cborHead 0 (nat n) else cborHead 1 (nat (- 1 - n)))"
| "cborPlain (JStr s) = cborHead 3 (length s) @ stringToU8a s"
| "cborPlain (JArr xs) = cborHead 4 (length xs) @ concat (map cborPlain xs)"
| "cborPlain (JObj kvs) =
     cborHead 5 (length kvs) @
     concat (map (\<lambda>(k, v). cborHead 3 (length k) @ stringToU8a k @ cborPlain v) kvs)"

definition u8aToHex :: "byte list \<Rightarrow> string" where
  "u8aToHex bs = ''0x'' @ concat (map (\<lambda>b. [hexDigit (unat b div 16), hexDigit (unat b)]) bs)"

definition compactLength :: "nat \<Rightarrow> byte list" where
  "compactLength n =
     (if n < 64 then [of_nat (n * 4)]
      else [of_nat (n * 4 + 1), of_nat ((n * 4 + 1) div 256)])"

definition lastSegment :: "string \<Rightarrow> string" where
  "lastSegment s = rev (takeWhile (\<lambda>c. c \<noteq> CHR '':'') (rev s))"

definition testEnv :: env where
  "testEnv = \<lparr>
     cborEncode = cborPlain,
     blake2AsHex = u8aToHex,
     createTypeBytes = (\<lambda>s. compactLength (length s) @ stringToU8a s),
     createTypeAccountId =
       (\<lambda>a. if length a = 32 then Inr (stringToU8a a) else Inl (JsError ''Invalid address'')),
     hashToUri = (\<lambda>d ident prefix. prefix @ ''m'' @ drop 2 d),
     uriToIdentifier =
       (\<lambda>u. case u of
              Some (JStr s) \<Rightarrow>
                if lastSegment s = [] then Inl (JsError ''Invalid URI'') else Inr (lastSegment s)
            | _ \<Rightarrow> Inl (JsError ''URI must be a non-empty string.'')),
     uriToEntryIdAndDigest =
       (\<lambda>s. if lastSegment s = [] then Inl (JsError ''Invalid URI'')
            else Inr (lastSegment s, ''0x00'')),
     SCHEMA_PREFIX = ''schema:cord:'',
     formatUri = (\<lambda>s. True)\<rparr>"

definition personSchema :: ISchema where
  "personSchema =
     [(''$id'', JStr ''schema:cord:mold''),
      (''title'', JStr ''Person''),
      (''properties'', JObj [(''name'', JObj [(''type'', JStr ''string'')]),
                            (''age'', JObj [(''type'', JStr ''integer'')])])]"

definition personSchemaPermuted :: ISchema where
  "personSchemaPermuted =
     [(''properties'', JObj [(''age'', JObj [(''type'', JStr ''integer'')]),
                            (''name'', JObj [(''type'', JStr ''string'')])]),
      (''$id'', JStr ''schema:cord:mold''),
      (''title'', JStr ''Person'')]"

definition personSchemaNoId :: ISchema where
  "personSchemaNoId =
     [(''title'', JStr ''Person''),
      (''properties'', JObj [(''name'', JObj [(''type'', JStr ''string'')]),
                            (''age'', JObj [(''type'', JStr ''integer'')])])]"


section \<open>Gateway traces and an in-memory ledger\<close>

text \<open>What a guarded transition may do to the gateway: nothing, the existence query alone,
  or the existence query followed by one submission, and that only if the entry was found.\<close>

definition guardedTrace :: "'l gateway \<Rightarrow> 'l world \<Rightarrow> 'l world \<Rightarrow> account \<Rightarrow> bool" where
  "guardedTrace G w w' acc =
     ((calls w' = calls w \<and> ledger w' = ledger w) \<or>
      (\<exists>i. calls w' = calls w @ [QueryRegistryEntries i] \<and> ledger w' = ledger w) \<or>
      (\<exists>i d tx. registryEntries G (ledger w) i = Inr (Some d) \<and>
         calls w' = calls w @ [QueryRegistryEntries i, SignAndSubmitTx tx acc]))"

text \<open>
  A ledger kept in memory stands in for the chain when the model is evaluated: storage
  is a pair of association lists and every submission is accepted.
\<close>

record memLedger =
  entries :: "(string \<times> RegistryEntryDetails) list"
  schemaStore :: "(string \<times> SchemaEntry) list"

definition updateEntry ::
  "string \<Rightarrow> (RegistryEntryDetails \<Rightarrow> RegistryEntryDetails) \<Rightarrow> memLedger \<Rightarrow> memLedger" where
  "updateEntry i f l =
     l\<lparr>entries := map (\<lambda>(k, d). if k = i then (k, f d) else (k, d)) (entries l)\<rparr>"

fun applyExtrinsic :: "extrinsic \<Rightarrow> account \<Rightarrow> memLedger \<Rightarrow> memLedger" where
  "applyExtrinsic (EntriesCreate i au d b) a l =
     l\<lparr>entries := entries l @ [(i, \<lparr>storedDigest = d, revoked = False, creator = a, registryId = []\<rparr>)]\<rparr>"
| "applyExtrinsic (EntriesUpdate i au d b) a l = updateEntry i (\<lambda>e. e\<lparr>storedDigest := d\<rparr>) l"
| "applyExtrinsic (EntriesRevoke i au) a l = updateEntry i (\<lambda>e. e\<lparr>revoked := True\<rparr>) l"
| "applyExtrinsic (EntriesReinstate i au) a l = updateEntry i (\<lambda>e. e\<lparr>revoked := False\<rparr>) l"
| "applyExtrinsic (EntriesUpdateOwnership i au n na) a l = updateEntry i (\<lambda>e. e\<lparr>creator := n\<rparr>) l"
| "applyExtrinsic (SchemaAccountsCreate enc) a l =
     l\<lparr>schemaStore := schemaStore l @ [(enc, \<lparr>storedSchema = enc, schemaDigest = [], schemaCreator = a\<rparr>)]\<rparr>"

definition memGateway :: "memLedger gateway" where
  "memGateway = \<lparr>
     registryEntries = (\<lambda>l i. Inr (map_of (entries l) i)),
     schemas = (\<lambda>l i. Inr (map_of (schemaStore l) i)),
     submit = (\<lambda>tx a l. (Inr (), applyExtrinsic tx a l))\<rparr>"

definition emptyLedger :: memLedger where
  "emptyLedger = \<lparr>entries = [], schemaStore = []\<rparr>"

definition sampleLedger :: memLedger where
  "sampleLedger = \<lparr>
     entries = [(''e1'', \<lparr>storedDigest = ''0x01'', revoked = False, creator = ''alice'',
                          registryId = ''r1''\<rparr>)],
     schemaStore = [(''mS1'', \<lparr>storedSchema = ''oA=='', schemaDigest = ''0x02'',
                              schemaCreator = ''alice''\<rparr>)]\<rparr>"

definition sampleEntry :: IRegistryEntry where
  "sampleEntry = \<lparr>
     entryUri = ''entry:cord:e1'',
     authorizationUri = ''registryauth:cord:a1'',
     entryDigest = ''0x01'',
     blob = None,
     registryUri = ''registry:cord:r1'',
     entryCreatorUri = ''did:cord:3alice''\<rparr>"

definition sampleWorld :: "memLedger world" where
  "sampleWorld = \<lparr>ledger = sampleLedger, calls = []\<rparr>"

definition storedSchema1 :: ISchema where
  "storedSchema1 = [(''$id'', JStr ''schema:cord:mS1''), (''title'', JStr ''Person'')]"

section \<open>Sample inputs\<close>

definition tinySchema :: ISchema where
  "tinySchema = [(''$id'', JStr ''schema:cord:mX''), (''title'', JStr ''T'')]"




definition builtContent :: ISchema where
  "builtContent =
     [(''title'', JStr ''Person''),
      (''type'', JStr ''object''),
      (''properties'', JObj [(''name'', JObj [(''type'', JStr ''string'')])]),
      (''additionalProperties'', JBool False),
      (''$schema'', JStr ''http://cord.network/draft-01/schema#'')]"

definition builtSchema :: ISchema where
  "builtSchema = (''$id'', JStr (fst (getUriForSchema testEnv builtContent))) # builtContent"




definition futureSchema :: ISchema where
  "futureSchema =
     [(''$id'', JStr (fst (getUriForSchema testEnv builtContent))),
      (''title'', JStr ''Person''),
      (''type'', JStr ''object''),
      (''properties'', JObj [(''name'', JObj [(''type'', JStr ''string'')])]),
      (''additionalProperties'', JBool False),
      (''$schema'', JStr ''http://cord.network/draft-02/schema#'')]"

section \<open>Helper lemmas\<close>

lemma filter_key_distinct:
  "distinct (map fst zs) \<Longrightarrow> k \<in> set zs \<Longrightarrow> filter (\<lambda>x. fst k = fst x) zs = [k]"
proof (induction zs)
  case Nil
  then show ?case by simp
next
  case (Cons z zs)
  show ?case
  proof (cases "k = z")
    case True
    have "filter (\<lambda>x. fst z = fst x) zs = []"
      using Cons.prems(1) by (auto simp: filter_empty_conv image_iff)
    with True show ?thesis by simp
  next
    case False
    with Cons.prems have kin: "k \<in> set zs" by simp
    have "fst k \<noteq> fst z" using Cons.prems(1) kin by (auto simp: image_iff)
    with Cons.IH Cons.prems(1) kin show ?thesis by simp
  qed
qed

lemma sort_key_fst_perm:
  assumes "mset xs = mset ys" and "distinct (map fst xs)"
  shows "sort_key fst xs = sort_key fst ys"
proof (rule properties_for_sort_key)
  show "mset (sort_key fst ys) = mset xs" using assms by simp
  show "sorted (map fst (sort_key fst ys))" by simp
  fix k assume k: "k \<in> set (sort_key fst ys)"
  have "mset (map fst (sort_key fst ys)) = mset (map fst xs)"
    using assms(1) by simp
  then have ds: "distinct (map fst (sort_key fst ys))"
    using assms(2) by (metis mset_eq_imp_distinct_iff)
  have kx: "k \<in> set xs" using k assms(1) by (metis mset_eq_setD set_sort)
  show "filter (\<lambda>x. fst k = fst x) (sort_key fst ys) = filter (\<lambda>x. fst k = fst x) xs"
    using filter_key_distinct[OF ds k] filter_key_distinct[OF assms(2) kx] by simp
qed

lemma list_all2_sortObj_map:
  "list_all2 (\<lambda>p q. fst p = fst q \<and> permuteKeys (snd p) (snd q) \<and>
       (wfJson (snd p) \<longrightarrow> sortObj (snd p) = sortObj (snd q))) kvs kvs' \<Longrightarrow>
   \<forall>(k, v) \<in> set kvs. wfJson v \<Longrightarrow>
   map (\<lambda>(k, v). (k, sortObj v)) kvs = map (\<lambda>(k, v). (k, sortObj v)) kvs'"
  by (induction kvs kvs' rule: list_all2_induct) (auto simp: case_prod_beta)

lemma sortObj_permuteKeys_imp:
  "permuteKeys r r' \<Longrightarrow> wfJson r \<longrightarrow> sortObj r = sortObj r'"
proof (induction rule: permuteKeys.induct)
  case (same j)
  then show ?case by simp
next
  case (arr xs ys)
  show ?case
  proof
    assume "wfJson (JArr xs)"
    then have "\<forall>x \<in> set xs. wfJson x" by simp
    with arr have "map sortObj xs = map sortObj ys"
      by (induction xs ys rule: list_all2_induct) auto
    then show "sortObj (JArr xs) = sortObj (JArr ys)" by simp
  qed
next
  case (obj kvs kvs' kvs'')
  show ?case
  proof
    assume w: "wfJson (JObj kvs)"
    have wf: "\<forall>(k, v) \<in> set kvs. wfJson v" and dk: "distinct (map fst kvs)"
      using w by auto
    have m: "map (\<lambda>(k, v). (k, sortObj v)) kvs = map (\<lambda>(k, v). (k, sortObj v)) kvs'"
      using obj(1) wf by (rule list_all2_sortObj_map)
    have "mset (map (\<lambda>(k, v). (k, sortObj v)) kvs') = mset (map (\<lambda>(k, v). (k, sortObj v)) kvs'')"
      using obj(2) by (metis mset_map)
    moreover have "distinct (map fst (map (\<lambda>(k, v). (k, sortObj v)) kvs))"
      using dk by (simp add: case_prod_beta comp_def)
    ultimately show "sortObj (JObj kvs) = sortObj (JObj kvs'')"
      using m sort_key_fst_perm[of "map (\<lambda>(k, v). (k, sortObj v)) kvs" "map (\<lambda>(k, v). (k, sortObj v)) kvs''"]
      by simp
  qed
qed

lemma sortObj_schemaWithoutId:
  "sortObj (JObj (schemaWithoutId r)) =
   (case sortObj (JObj r) of JObj kvs \<Rightarrow> JObj (filter (\<lambda>(k, v). k \<noteq> ''$id'') kvs) | j \<Rightarrow> j)"
proof -
  have "map (\<lambda>(k, v). (k, sortObj v)) (filter (\<lambda>(k, v). k \<noteq> ''$id'') r)
      = filter (\<lambda>(k, v). k \<noteq> ''$id'') (map (\<lambda>(k, v). (k, sortObj v)) r)"
    by (induction r) auto
  then show ?thesis
    by (simp add: schemaWithoutId_def filter_sort)
qed

lemma encodeCborSchema_permuteKeys:
  assumes "wfJson (JObj r)" and "permuteKeys (JObj r) (JObj r')"
  shows "encodeCborSchema E r = encodeCborSchema E r'"
proof -
  have "sortObj (JObj r) = sortObj (JObj r')"
    using sortObj_permuteKeys_imp[OF assms(2)] assms(1) by blast
  then have "sortObj (JObj (schemaWithoutId r)) = sortObj (JObj (schemaWithoutId r'))"
    by (simp only: sortObj_schemaWithoutId)
  then show ?thesis by (simp add: encodeCborSchema_def)
qed

lemma encodeCborSchema_differOnlyInId:
  assumes "differOnlyInId r r'"
  shows "encodeCborSchema E r = encodeCborSchema E r'"
proof -
  have "schemaWithoutId r = schemaWithoutId r'"
    using assms by (simp add: differOnlyInId_def schemaWithoutId_def case_prod_unfold)
  then show ?thesis by (simp add: encodeCborSchema_def)
qed

lemma personSchema_permuted: "permuteKeys (JObj personSchema) (JObj personSchemaPermuted)"
  unfolding personSchema_def personSchemaPermuted_def
  apply (rule permuteKeys.obj[where kvs' = "[(''$id'', JStr ''schema:cord:mold''),
      (''title'', JStr ''Person''),
      (''properties'', JObj [(''age'', JObj [(''type'', JStr ''integer'')]),
                            (''name'', JObj [(''type'', JStr ''string'')])])]"])
   apply (simp add: permuteKeys.same)
   apply (rule permuteKeys.obj[where kvs' = "[(''name'', JObj [(''type'', JStr ''string'')]),
                            (''age'', JObj [(''type'', JStr ''integer'')])]"])
    apply (simp add: permuteKeys.same)
   apply simp
  apply simp
  done


lemma isRegistryEntryStored_cases:
  "isRegistryEntryStored G i w =
     (case registryEntries G (ledger w) i of
        Inl e \<Rightarrow> Inl (CordQueryError (''Error querying the registry-entry: '' @ toString e))
      | Inr enc \<Rightarrow> Inr (enc \<noteq> None),
      w\<lparr>calls := calls w @ [QueryRegistryEntries i]\<rparr>)"
  by (simp add: returnM_def throwM_def thenM_def catchM_def queryRegistryEntries_def
      isRegistryEntryStored_def split: sum.splits)

lemmas dispatch_simps = isRegistryEntryStored_cases thenM_def liftE_def throwM_def catchM_def
  returnM_def signAndSubmitTx_def Let_def

lemma update_absent:
  assumes "uriToEntryIdAndDigest E (entryUri ed) = Inr obj"
    and "uriToIdentifier E (Some (JStr (authorizationUri ed))) = Inr aid"
    and "registryEntries G (ledger w) (fst obj) = Inr None"
  shows "dispatchUpdateEntryToChain E G ed acc w =
     (Inl (CordDispatchError (''Error dispatching to chain: \"'' @
        ''Registry Entry does not exists at URI: \"'' @ entryUri ed @ ''\".'' @ ''\".'')),
      w\<lparr>calls := calls w @ [QueryRegistryEntries (fst obj)]\<rparr>)"
  using assms by (simp add: dispatchUpdateEntryToChain_def dispatch_simps)

lemma revoke_absent:
  assumes "uriToEntryIdAndDigest E u = Inr obj"
    and "uriToIdentifier E (Some (JStr au)) = Inr aid"
    and "registryEntries G (ledger w) (fst obj) = Inr None"
  shows "dispatchRevokeEntryToChain E G u au acc w =
     (Inl (CordDispatchError (''Registry Entry does not exists at URI: \"'' @ u @ ''\".'')),
      w\<lparr>calls := calls w @ [QueryRegistryEntries (fst obj)]\<rparr>)"
  using assms by (simp add: dispatchRevokeEntryToChain_def dispatch_simps)

lemma reinstate_absent:
  assumes "uriToEntryIdAndDigest E u = Inr obj"
    and "uriToIdentifier E (Some (JStr au)) = Inr aid"
    and "registryEntries G (ledger w) (fst obj) = Inr None"
  shows "dispatchReinstateEntryToChain E G u au acc w =
     (Inl (CordDispatchError (''Registry Entry does not exists at URI: \"'' @ u @ ''\".'')),
      w\<lparr>calls := calls w @ [QueryRegistryEntries (fst obj)]\<rparr>)"
  using assms by (simp add: dispatchReinstateEntryToChain_def dispatch_simps)

lemma updateOwnership_absent:
  assumes "uriToEntryIdAndDigest E u = Inr obj"
    and "uriToIdentifier E (Some (JStr au)) = Inr aid"
    and "uriToIdentifier E (Some (JStr nau)) = Inr naid"
    and "registryEntries G (ledger w) (fst obj) = Inr None"
  shows "dispatchUpdateOwnershipToChain E G u au newOwner nau acc w =
     (Inl (CordDispatchError (''Error dispatching to chain: \"'' @
        jsonStringify (''Registry Entry does not exists at URI: \"'' @ u @ ''\".'') @ ''\".'')),
      w\<lparr>calls := calls w @ [QueryRegistryEntries (fst obj)]\<rparr>)"
  using assms by (simp add: dispatchUpdateOwnershipToChain_def dispatch_simps)

lemma update_trace:
  "guardedTrace G w (snd (dispatchUpdateEntryToChain E G ed acc w)) acc"
  by (auto simp: guardedTrace_def dispatchUpdateEntryToChain_def dispatch_simps
      split: sum.splits prod.splits)

lemma revoke_trace:
  "guardedTrace G w (snd (dispatchRevokeEntryToChain E G u au acc w)) acc"
  by (auto simp: guardedTrace_def dispatchRevokeEntryToChain_def dispatch_simps
      split: sum.splits prod.splits)

lemma reinstate_trace:
  "guardedTrace G w (snd (dispatchReinstateEntryToChain E G u au acc w)) acc"
  by (auto simp: guardedTrace_def dispatchReinstateEntryToChain_def dispatch_simps
      split: sum.splits prod.splits)

lemma updateOwnership_trace:
  "guardedTrace G w (snd (dispatchUpdateOwnershipToChain E G u au newOwner nau acc w)) acc"
  by (auto simp: guardedTrace_def dispatchUpdateOwnershipToChain_def dispatch_simps
      split: sum.splits prod.splits)


lemma create_exists:
  assumes "uriToEntryIdAndDigest E (entryUri ed) = Inr obj"
    and "uriToIdentifier E (Some (JStr (authorizationUri ed))) = Inr aid"
    and "registryEntries G (ledger w) (fst obj) = Inr (Some d)"
  shows "dispatchCreateEntryToChain E G ed acc w =
     (Inl (CordDispatchError (''Error dispatching to chain: \"'' @
        ''Registry Entry already exists at URI: \"'' @ entryUri ed @ ''\".'' @ ''\".'')),
      w\<lparr>calls := calls w @ [QueryRegistryEntries (fst obj)]\<rparr>)"
  using assms by (simp add: dispatchCreateEntryToChain_def dispatch_simps)

lemma create_absent:
  assumes "uriToEntryIdAndDigest E (entryUri ed) = Inr obj"
    and "uriToIdentifier E (Some (JStr (authorizationUri ed))) = Inr aid"
    and "registryEntries G (ledger w) (fst obj) = Inr None"
  shows "calls (snd (dispatchCreateEntryToChain E G ed acc w)) =
     calls w @ [QueryRegistryEntries (fst obj),
                SignAndSubmitTx (EntriesCreate (fst obj) aid (entryDigest ed) (blob ed)) acc]"
  using assms
  by (auto simp: dispatchCreateEntryToChain_def dispatch_simps split: sum.splits prod.splits)

lemma create_trace:
  "(calls (snd (dispatchCreateEntryToChain E G ed acc w)) = calls w \<and>
      ledger (snd (dispatchCreateEntryToChain E G ed acc w)) = ledger w) \<or>
   (\<exists>i. calls (snd (dispatchCreateEntryToChain E G ed acc w)) = calls w @ [QueryRegistryEntries i] \<and>
      ledger (snd (dispatchCreateEntryToChain E G ed acc w)) = ledger w) \<or>
   (\<exists>i aid. registryEntries G (ledger w) i = Inr None \<and>
      calls (snd (dispatchCreateEntryToChain E G ed acc w)) =
        calls w @ [QueryRegistryEntries i,
                   SignAndSubmitTx (EntriesCreate i aid (entryDigest ed) (blob ed)) acc])"
  by (auto simp: dispatchCreateEntryToChain_def dispatch_simps split: sum.splits prod.splits)

lemma reinstate_exists:
  assumes "uriToEntryIdAndDigest E u = Inr obj"
    and "uriToIdentifier E (Some (JStr au)) = Inr aid"
    and "registryEntries G (ledger w) (fst obj) = Inr (Some d)"
  shows "dispatchReinstateEntryToChain E G u au acc w =
     (case submit G (EntriesReinstate (fst obj) aid) acc (ledger w) of
        (Inl e, l') \<Rightarrow>
          (Inl (CordDispatchError (''Error dispatching to chain: \"'' @ message e @ ''\".'')),
           \<lparr>ledger = l', calls = calls w @ [QueryRegistryEntries (fst obj),
                SignAndSubmitTx (EntriesReinstate (fst obj) aid) acc]\<rparr>)
      | (Inr x, l') \<Rightarrow>
          (Inr u,
           \<lparr>ledger = l', calls = calls w @ [QueryRegistryEntries (fst obj),
                SignAndSubmitTx (EntriesReinstate (fst obj) aid) acc]\<rparr>))"
  using assms
  by (auto simp: dispatchReinstateEntryToChain_def dispatch_simps split: sum.splits prod.splits)

lemma dispatchToChain_stored:
  assumes "uriToIdentifier E (map_of s ''$id'') = Inr ident"
    and "schemas G (ledger w) ident = Inr (Some e)"
  shows "dispatchToChain E G s acc w =
     (Inr (map_of s ''$id''), w\<lparr>calls := calls w @ [QuerySchemas ident]\<rparr>)"
  using assms
  by (simp add: dispatchToChain_def isSchemaStored_def querySchemas_def dispatch_simps)

lemma testEnv_sampleEntry:
  "uriToEntryIdAndDigest testEnv (entryUri sampleEntry) = Inr (''e1'', ''0x00'')"
  "uriToIdentifier testEnv (Some (JStr (authorizationUri sampleEntry))) = Inr ''a1''"
  "uriToIdentifier testEnv (Some (JStr ''registryauth:cord:a2'')) = Inr ''a2''"
  by (simp_all add: testEnv_def sampleEntry_def lastSegment_def)

lemma length_toBase64: "length (toBase64 bs) = 4 * ((length bs + 2) div 3)"
proof (induction bs rule: toBase64.induct)
  case (4 a b c rest)
  have "4 * ((length (a # b # c # rest) + 2) div 3) = 4 + 4 * ((length rest + 2) div 3)"
    by simp arith
  with 4 show ?case by (simp add: Let_def)
qed (simp_all add: Let_def)

lemma toBase64_not_raw: "bs \<noteq> [] \<Longrightarrow> stringToU8a (toBase64 bs) \<noteq> bs"
proof
  assume ne: "bs \<noteq> []" and eq: "stringToU8a (toBase64 bs) = bs"
  have "length (stringToU8a (toBase64 bs)) = 4 * ((length bs + 2) div 3)"
    by (simp add: stringToU8a_def length_toBase64)
  with eq have "length bs = 4 * ((length bs + 2) div 3)" by simp
  moreover have "length bs > 0" using ne by simp
  ultimately show False by arith
qed

lemma tinySchema_canonicalBytes: "canonicalBytes testEnv tinySchema = [0xA1, 0x65, 0x74, 0x69, 0x74, 0x6C, 0x65, 0x61, 0x54]"
  by (simp add: canonicalBytes_def tinySchema_def schemaWithoutId_def testEnv_def cborHead_def stringToU8a_def)

lemma tinySchema_encoded: "encodeCborSchema testEnv tinySchema = ''oWV0aXRsZWFU''"
  using tinySchema_canonicalBytes by (simp add: encodeCborSchema_def canonicalBytes_def base64Alphabet_def b64_def)


lemma tinySchema_hashed_bytes: "stringToU8a ''oWV0aXRsZWFU'' = [0x6F, 0x57, 0x56, 0x30, 0x61, 0x58, 0x52, 0x73, 0x5A, 0x57, 0x46, 0x55]"
  by (simp add: stringToU8a_def)

lemma SchemaModel_declares_version:
  assumes "SchemaModel E j"
  shows "\<exists>r. j = JObj r \<and> map_of r ''$schema'' = Some (JStr SchemaModelV1_id)"
proof -
  from assms have p: "propertyIs ''$schema'' (\<lambda>v. typeString v \<and> constIs (JStr SchemaModelV1_id) v) j"
    and v1: "SchemaModelV1 E j"
    by (simp_all add: SchemaModel_def allOf_def)
  from v1 have t: "typeObject j"
    and rq: "requiredAll [''$id'', ''$schema'', ''additionalProperties'', ''properties'', ''title'', ''type''] j"
    by (simp_all add: SchemaModelV1_def)
  from t obtain r where j: "j = JObj r" by (cases j) (simp_all add: typeObject_def)
  from rq j have "''$schema'' \<in> fst ` set r" by (simp add: requiredAll_def)
  then obtain v where m: "map_of r ''$schema'' = Some v"
    by (metis map_of_eq_None_iff not_Some_eq)
  with p j have "v = JStr SchemaModelV1_id" by (simp add: propertyIs_def constIs_def)
  with m j show ?thesis by simp
qed



lemma isAlnum_hexDigit: "isAlnum (hexDigit n)"
proof -
  have a: "\<forall>c \<in> set ''0123456789abcdef''. isAlnum c"
    by (simp add: isAlnum_def)
  have "n mod 16 < length ''0123456789abcdef''" by simp
  then have "''0123456789abcdef'' ! (n mod 16) \<in> set ''0123456789abcdef''"
    by (rule nth_mem)
  with a show ?thesis unfolding hexDigit_def by blast
qed

lemma schemaIdPattern_testEnv: "schemaIdPattern (fst (getUriForSchema testEnv r))"
proof -
  define bs where "bs = createTypeBytes testEnv (encodeCborSchema testEnv r)"
  define hs where "hs = concat (map (\<lambda>b. [hexDigit (unat b div 16), hexDigit (unat b)]) bs)"
  have ne: "bs \<noteq> []" by (simp add: bs_def testEnv_def compactLength_def)
  then have hne: "hs \<noteq> []" by (cases bs) (simp_all add: hs_def)
  have al: "\<forall>c \<in> set hs. isAlnum c" by (auto simp: hs_def isAlnum_hexDigit)
  have "fst (getUriForSchema testEnv r) = ''schema:cord:m'' @ hs"
    by (simp add: getUriForSchema_def Let_def testEnv_def u8aToHex_def hs_def bs_def)
  with hne al show ?thesis by (simp add: schemaIdPattern_def)
qed

lemmas keyword_defs = typeObject_def typeString_def typeBoolean_def typeNumber_def typeArray_def
  constIs_def enumIs_def patternIs_def formatIs_def requiredAll_def propertyIs_def
  patternPropertiesAll_def additionalPropertiesFalse_def itemsAll_def oneOf_def allOf_def

lemma nameProperty_alternatives:
  "def_string (JObj [(''type'', JStr ''string'')])"
  "\<not> def_number (JObj [(''type'', JStr ''string'')])"
  "\<not> def_boolean (JObj [(''type'', JStr ''string'')])"
  "\<not> def_schemaReference E (JObj [(''type'', JStr ''string'')])"
  "\<not> def_array E (JObj [(''type'', JStr ''string'')])"
  "\<not> def_object E (JObj [(''type'', JStr ''string'')])"
  by (simp_all add: def_string_def def_number_def def_boolean_def def_schemaReference_def
      def_array_def def_object.simps[of E "JObj [(''type'', JStr ''string'')]"] keyword_defs)

lemma builtContent_valid:
  "schemaIdPattern u \<Longrightarrow> SchemaModel E (JObj ((''$id'', JStr u) # builtContent))"
  by (simp add: SchemaModel_def SchemaModelV1_def SchemaModelV1_id_def builtContent_def
      keyword_defs anyName_def lineTerminator_def nameProperty_alternatives)

lemma builtSchema_valid: "SchemaModel testEnv (JObj builtSchema)"
  unfolding builtSchema_def by (rule builtContent_valid) (rule schemaIdPattern_testEnv)













section \<open>Canonicalization invariance\<close>

text \<open>
  Claim C2. For every schema record with distinct keys and every permutation of its
  object keys at any nesting level, \<open>encodeCborSchema\<close> returns the same string; and two
  records that differ only in their \<open>$id\<close> entry (present, absent or different) encode
  to the same string. Hence the digest and the URI derived from them are the same.
\<close>

theorem encodeCborSchema_canonical:
  "(wfJson (JObj r) \<and> permuteKeys (JObj r) (JObj r1) \<longrightarrow>
      encodeCborSchema E r = encodeCborSchema E r1 \<and>
      getHashForSchema E r = getHashForSchema E r1 \<and>
      getUriForSchema E r = getUriForSchema E r1) \<and>
   (differOnlyInId r r2 \<longrightarrow>
      encodeCborSchema E r = encodeCborSchema E r2 \<and>
      getHashForSchema E r = getHashForSchema E r2 \<and>
      getUriForSchema E r = getUriForSchema E r2)"
  using encodeCborSchema_permuteKeys[of r r1 E] encodeCborSchema_differOnlyInId[of r r2 E]
  by (simp add: getHashForSchema_def getUriForSchema_def)


theorem encodeCborSchema_canonical_witness:
  "wfJson (JObj personSchema) \<and> permuteKeys (JObj personSchema) (JObj personSchemaPermuted) \<and>
   differOnlyInId personSchema personSchemaNoId \<and>
   personSchema \<noteq> personSchemaPermuted \<and> personSchema \<noteq> personSchemaNoId \<and>
   encodeCborSchema testEnv personSchema = encodeCborSchema testEnv personSchemaPermuted \<and>
   encodeCborSchema testEnv personSchema = encodeCborSchema testEnv personSchemaNoId \<and>
   getUriForSchema testEnv personSchema = getUriForSchema testEnv personSchemaPermuted \<and>
   getUriForSchema testEnv personSchema = getUriForSchema testEnv personSchemaNoId"
proof -
  have w: "wfJson (JObj personSchema)" by (simp add: personSchema_def)
  have d: "differOnlyInId personSchema personSchemaNoId"
    by (simp add: differOnlyInId_def personSchema_def personSchemaNoId_def)
  have n: "personSchema \<noteq> personSchemaPermuted" "personSchema \<noteq> personSchemaNoId"
    by (simp_all add: personSchema_def personSchemaPermuted_def personSchemaNoId_def)
  note c = encodeCborSchema_canonical[of personSchema personSchemaPermuted testEnv personSchemaNoId]
  from c w personSchema_permuted
  have p1: "encodeCborSchema testEnv personSchema = encodeCborSchema testEnv personSchemaPermuted"
    and p2: "getUriForSchema testEnv personSchema = getUriForSchema testEnv personSchemaPermuted"
    by blast+
  from c d
  have p3: "encodeCborSchema testEnv personSchema = encodeCborSchema testEnv personSchemaNoId"
    and p4: "getUriForSchema testEnv personSchema = getUriForSchema testEnv personSchemaNoId"
    by blast+
  from w personSchema_permuted d n p1 p2 p3 p4 show ?thesis by blast
qed

section \<open>Entry lifecycle guards\<close>

text \<open>
  Claim C4. Update, Revoke, Reinstate and TransferOwnership query the ledger for the
  entry before anything else is sent to it. When the entry is absent each of them raises
  the error that says the entry does not exist (a \<open>CordDispatchError\<close> whose message is
  "Registry Entry does not exists at URI", wrapped once more by Update and
  TransferOwnership) and the only call made to the gateway is the existence query: no
  transaction is submitted and the ledger is unchanged. For every input whatsoever, a
  submission happens only after the existence query and only if the entry was found.
\<close>

theorem guarded_transitions_abort_when_absent:
  "(uriToEntryIdAndDigest E (entryUri ed) = Inr obj \<and>
    uriToIdentifier E (Some (JStr (authorizationUri ed))) = Inr aid \<and>
    uriToIdentifier E (Some (JStr nau)) = Inr naid \<and>
    registryEntries G (ledger w) (fst obj) = Inr None \<longrightarrow>
      dispatchUpdateEntryToChain E G ed acc w =
        (Inl (CordDispatchError (''Error dispatching to chain: \"'' @
           ''Registry Entry does not exists at URI: \"'' @ entryUri ed @ ''\".'' @ ''\".'')),
         w\<lparr>calls := calls w @ [QueryRegistryEntries (fst obj)]\<rparr>) \<and>
      dispatchRevokeEntryToChain E G (entryUri ed) (authorizationUri ed) acc w =
        (Inl (CordDispatchError (''Registry Entry does not exists at URI: \"'' @ entryUri ed @ ''\".'')),
         w\<lparr>calls := calls w @ [QueryRegistryEntries (fst obj)]\<rparr>) \<and>
      dispatchReinstateEntryToChain E G (entryUri ed) (authorizationUri ed) acc w =
        (Inl (CordDispatchError (''Registry Entry does not exists at URI: \"'' @ entryUri ed @ ''\".'')),
         w\<lparr>calls := calls w @ [QueryRegistryEntries (fst obj)]\<rparr>) \<and>
      dispatchUpdateOwnershipToChain E G (entryUri ed) (authorizationUri ed) newOwner nau acc w =
        (Inl (CordDispatchError (''Error dispatching to chain: \"'' @
           jsonStringify (''Registry Entry does not exists at URI: \"'' @ entryUri ed @ ''\".'') @ ''\".'')),
         w\<lparr>calls := calls w @ [QueryRegistryEntries (fst obj)]\<rparr>)) \<and>
   guardedTrace G w (snd (dispatchUpdateEntryToChain E G ed acc w)) acc \<and>
   guardedTrace G w (snd (dispatchRevokeEntryToChain E G u au acc w)) acc \<and>
   guardedTrace G w (snd (dispatchReinstateEntryToChain E G u au acc w)) acc \<and>
   guardedTrace G w (snd (dispatchUpdateOwnershipToChain E G u au newOwner nau acc w)) acc"
  using update_absent[of E ed obj aid G w acc]
    revoke_absent[of E "entryUri ed" obj "authorizationUri ed" aid G w acc]
    reinstate_absent[of E "entryUri ed" obj "authorizationUri ed" aid G w acc]
    updateOwnership_absent[of E "entryUri ed" obj "authorizationUri ed" aid nau naid G w newOwner acc]
    update_trace[of G w E ed acc] revoke_trace[of G w E u au acc]
    reinstate_trace[of G w E u au acc] updateOwnership_trace[of G w E u au newOwner nau acc]
  by blast

theorem guarded_transitions_abort_when_absent_witness:
  "registryEntries memGateway emptyLedger ''e1'' = Inr None \<and>
   dispatchUpdateEntryToChain testEnv memGateway sampleEntry ''alice''
       \<lparr>ledger = emptyLedger, calls = []\<rparr> =
     (Inl (CordDispatchError
        ''Error dispatching to chain: \"Registry Entry does not exists at URI: \"entry:cord:e1\".\".''),
      \<lparr>ledger = emptyLedger, calls = [QueryRegistryEntries ''e1'']\<rparr>) \<and>
   dispatchRevokeEntryToChain testEnv memGateway ''entry:cord:e1'' ''registryauth:cord:a1'' ''alice''
       \<lparr>ledger = emptyLedger, calls = []\<rparr> =
     (Inl (CordDispatchError ''Registry Entry does not exists at URI: \"entry:cord:e1\".''),
      \<lparr>ledger = emptyLedger, calls = [QueryRegistryEntries ''e1'']\<rparr>) \<and>
   dispatchReinstateEntryToChain testEnv memGateway ''entry:cord:e1'' ''registryauth:cord:a1'' ''alice''
       \<lparr>ledger = emptyLedger, calls = []\<rparr> =
     (Inl (CordDispatchError ''Registry Entry does not exists at URI: \"entry:cord:e1\".''),
      \<lparr>ledger = emptyLedger, calls = [QueryRegistryEntries ''e1'']\<rparr>) \<and>
   dispatchUpdateOwnershipToChain testEnv memGateway ''entry:cord:e1'' ''registryauth:cord:a1''
       ''bob'' ''registryauth:cord:a2'' ''alice'' \<lparr>ledger = emptyLedger, calls = []\<rparr> =
     (Inl (CordDispatchError
        (''Error dispatching to chain: \"'' @
         jsonStringify ''Registry Entry does not exists at URI: \"entry:cord:e1\".'' @ ''\".'')),
      \<lparr>ledger = emptyLedger, calls = [QueryRegistryEntries ''e1'']\<rparr>)"
proof -
  have q: "registryEntries memGateway (ledger \<lparr>ledger = emptyLedger, calls = []\<rparr>) (fst (''e1'', ''0x00'')) = Inr None"
    by (simp add: memGateway_def emptyLedger_def)
  from guarded_transitions_abort_when_absent[of testEnv sampleEntry "(''e1'', ''0x00'')" "''a1''"
      "''registryauth:cord:a2''" "''a2''" memGateway "\<lparr>ledger = emptyLedger, calls = []\<rparr>" "''alice''" "''bob''"]
    testEnv_sampleEntry q
  show ?thesis by (simp add: sampleEntry_def memGateway_def emptyLedger_def)
qed


text \<open>
  Claim C5. When an entry with the same identifier is already anchored,
  \<open>dispatchCreateEntryToChain\<close> raises the error that says the entry already exists
  (a \<open>CordDispatchError\<close>) and submits nothing; when the identifier is absent it submits
  the create payload (id, authorizationId, digest, blob); and for every input a
  submission is that payload, made only after the query answered that the identifier
  is absent.
\<close>

theorem create_requires_absent_identifier:
  "(uriToEntryIdAndDigest E (entryUri ed) = Inr obj \<and>
    uriToIdentifier E (Some (JStr (authorizationUri ed))) = Inr aid \<longrightarrow>
      (registryEntries G (ledger w) (fst obj) = Inr (Some d) \<longrightarrow>
         dispatchCreateEntryToChain E G ed acc w =
           (Inl (CordDispatchError (''Error dispatching to chain: \"'' @
              ''Registry Entry already exists at URI: \"'' @ entryUri ed @ ''\".'' @ ''\".'')),
            w\<lparr>calls := calls w @ [QueryRegistryEntries (fst obj)]\<rparr>)) \<and>
      (registryEntries G (ledger w) (fst obj) = Inr None \<longrightarrow>
         calls (snd (dispatchCreateEntryToChain E G ed acc w)) =
           calls w @ [QueryRegistryEntries (fst obj),
                      SignAndSubmitTx (EntriesCreate (fst obj) aid (entryDigest ed) (blob ed)) acc])) \<and>
   ((calls (snd (dispatchCreateEntryToChain E G ed acc w)) = calls w \<and>
       ledger (snd (dispatchCreateEntryToChain E G ed acc w)) = ledger w) \<or>
    (\<exists>i. calls (snd (dispatchCreateEntryToChain E G ed acc w)) = calls w @ [QueryRegistryEntries i] \<and>
       ledger (snd (dispatchCreateEntryToChain E G ed acc w)) = ledger w) \<or>
    (\<exists>i a. registryEntries G (ledger w) i = Inr None \<and>
       calls (snd (dispatchCreateEntryToChain E G ed acc w)) =
         calls w @ [QueryRegistryEntries i,
                    SignAndSubmitTx (EntriesCreate i a (entryDigest ed) (blob ed)) acc]))"
  using create_exists[of E ed obj aid G w d acc] create_absent[of E ed obj aid G w acc]
    create_trace[of E G ed acc w]
  by blast

theorem create_requires_absent_identifier_witness:
  "registryEntries memGateway sampleLedger ''e1'' \<noteq> Inr None \<and>
   registryEntries memGateway emptyLedger ''e1'' = Inr None \<and>
   dispatchCreateEntryToChain testEnv memGateway sampleEntry ''alice'' sampleWorld =
     (Inl (CordDispatchError
        ''Error dispatching to chain: \"Registry Entry already exists at URI: \"entry:cord:e1\".\".''),
      \<lparr>ledger = sampleLedger, calls = [QueryRegistryEntries ''e1'']\<rparr>) \<and>
   calls (snd (dispatchCreateEntryToChain testEnv memGateway sampleEntry ''alice''
       \<lparr>ledger = emptyLedger, calls = []\<rparr>)) =
     [QueryRegistryEntries ''e1'', SignAndSubmitTx (EntriesCreate ''e1'' ''a1'' ''0x01'' None) ''alice'']"
proof -
  have q1: "registryEntries memGateway (ledger sampleWorld) (fst (''e1'', ''0x00'')) =
      Inr (Some \<lparr>storedDigest = ''0x01'', revoked = False, creator = ''alice'', registryId = ''r1''\<rparr>)"
    by (simp add: memGateway_def sampleWorld_def sampleLedger_def)
  have q2: "registryEntries memGateway (ledger \<lparr>ledger = emptyLedger, calls = []\<rparr>) (fst (''e1'', ''0x00'')) = Inr None"
    by (simp add: memGateway_def emptyLedger_def)
  from create_requires_absent_identifier[of testEnv sampleEntry "(''e1'', ''0x00'')" "''a1''"
      memGateway sampleWorld _ "''alice''"] testEnv_sampleEntry q1
  have r1: "dispatchCreateEntryToChain testEnv memGateway sampleEntry ''alice'' sampleWorld =
     (Inl (CordDispatchError
        ''Error dispatching to chain: \"Registry Entry already exists at URI: \"entry:cord:e1\".\".''),
      \<lparr>ledger = sampleLedger, calls = [QueryRegistryEntries ''e1'']\<rparr>)"
    by (simp add: sampleEntry_def sampleWorld_def)
  from create_requires_absent_identifier[of testEnv sampleEntry "(''e1'', ''0x00'')" "''a1''"
      memGateway "\<lparr>ledger = emptyLedger, calls = []\<rparr>" _ "''alice''"] testEnv_sampleEntry q2
  have r2: "calls (snd (dispatchCreateEntryToChain testEnv memGateway sampleEntry ''alice''
       \<lparr>ledger = emptyLedger, calls = []\<rparr>)) =
     [QueryRegistryEntries ''e1'', SignAndSubmitTx (EntriesCreate ''e1'' ''a1'' ''0x01'' None) ''alice'']"
    by (simp add: sampleEntry_def)
  from q1 q2 r1 r2 show ?thesis by (simp add: sampleWorld_def)
qed

text \<open>
  Claim C6. The only local precondition of \<open>dispatchReinstateEntryToChain\<close> is that the
  entry exists: whatever the stored details are (the revoked flag included), the same
  \<open>reinstate\<close> payload is submitted, and the call fails only if the gateway rejects
  the submission. Reinstating twice in a row succeeds on a ledger that accepts it.
\<close>

theorem reinstate_checks_existence_only:
  "uriToEntryIdAndDigest E u = Inr obj \<and>
   uriToIdentifier E (Some (JStr au)) = Inr aid \<and>
   registryEntries G (ledger w) (fst obj) = Inr (Some d) \<longrightarrow>
     dispatchReinstateEntryToChain E G u au acc w =
       (case submit G (EntriesReinstate (fst obj) aid) acc (ledger w) of
          (Inl e, l') \<Rightarrow>
            (Inl (CordDispatchError (''Error dispatching to chain: \"'' @ message e @ ''\".'')),
             \<lparr>ledger = l', calls = calls w @ [QueryRegistryEntries (fst obj),
                  SignAndSubmitTx (EntriesReinstate (fst obj) aid) acc]\<rparr>)
        | (Inr x, l') \<Rightarrow>
            (Inr u,
             \<lparr>ledger = l', calls = calls w @ [QueryRegistryEntries (fst obj),
                  SignAndSubmitTx (EntriesReinstate (fst obj) aid) acc]\<rparr>))"
  using reinstate_exists[of E u obj au aid G w d acc] by blast

theorem reinstate_checks_existence_only_witness:
  "map_of (entries sampleLedger) ''e1'' =
     Some \<lparr>storedDigest = ''0x01'', revoked = False, creator = ''alice'', registryId = ''r1''\<rparr> \<and>
   dispatchReinstateEntryToChain testEnv memGateway ''entry:cord:e1'' ''registryauth:cord:a1''
       ''alice'' sampleWorld =
     (Inr ''entry:cord:e1'',
      \<lparr>ledger = sampleLedger,
        calls = [QueryRegistryEntries ''e1'', SignAndSubmitTx (EntriesReinstate ''e1'' ''a1'') ''alice'']\<rparr>) \<and>
   dispatchReinstateEntryToChain testEnv memGateway ''entry:cord:e1'' ''registryauth:cord:a1''
       ''alice''
       \<lparr>ledger = sampleLedger,
        calls = [QueryRegistryEntries ''e1'', SignAndSubmitTx (EntriesReinstate ''e1'' ''a1'') ''alice'']\<rparr> =
     (Inr ''entry:cord:e1'',
      \<lparr>ledger = sampleLedger,
        calls = [QueryRegistryEntries ''e1'', SignAndSubmitTx (EntriesReinstate ''e1'' ''a1'') ''alice'',
                 QueryRegistryEntries ''e1'', SignAndSubmitTx (EntriesReinstate ''e1'' ''a1'') ''alice'']\<rparr>)"
proof -
  let ?d = "\<lparr>storedDigest = ''0x01'', revoked = False, creator = ''alice'', registryId = ''r1''\<rparr>"
  let ?w1 = "\<lparr>ledger = sampleLedger,
        calls = [QueryRegistryEntries ''e1'', SignAndSubmitTx (EntriesReinstate ''e1'' ''a1'') ''alice'']\<rparr>"
  have m: "map_of (entries sampleLedger) ''e1'' = Some ?d"
    by (simp add: sampleLedger_def)
  have q1: "registryEntries memGateway (ledger sampleWorld) (fst (''e1'', ''0x00'')) = Inr (Some ?d)"
    by (simp add: memGateway_def sampleWorld_def sampleLedger_def)
  have q2: "registryEntries memGateway (ledger ?w1) (fst (''e1'', ''0x00'')) = Inr (Some ?d)"
    by (simp add: memGateway_def sampleLedger_def)
  have s: "submit memGateway (EntriesReinstate ''e1'' ''a1'') ''alice'' sampleLedger = (Inr (), sampleLedger)"
    by (simp add: memGateway_def sampleLedger_def updateEntry_def)
  from reinstate_checks_existence_only[of testEnv "''entry:cord:e1''" "(''e1'', ''0x00'')"
      "''registryauth:cord:a1''" "''a1''" memGateway sampleWorld ?d "''alice''"] testEnv_sampleEntry q1 s
  have r1: "dispatchReinstateEntryToChain testEnv memGateway ''entry:cord:e1'' ''registryauth:cord:a1''
       ''alice'' sampleWorld = (Inr ''entry:cord:e1'', ?w1)"
    by (simp add: sampleEntry_def sampleWorld_def)
  from reinstate_checks_existence_only[of testEnv "''entry:cord:e1''" "(''e1'', ''0x00'')"
      "''registryauth:cord:a1''" "''a1''" memGateway ?w1 ?d "''alice''"] testEnv_sampleEntry q2 s
  have r2: "dispatchReinstateEntryToChain testEnv memGateway ''entry:cord:e1'' ''registryauth:cord:a1''
       ''alice'' ?w1 =
     (Inr ''entry:cord:e1'',
      \<lparr>ledger = sampleLedger,
        calls = [QueryRegistryEntries ''e1'', SignAndSubmitTx (EntriesReinstate ''e1'' ''a1'') ''alice'',
                 QueryRegistryEntries ''e1'', SignAndSubmitTx (EntriesReinstate ''e1'' ''a1'') ''alice'']\<rparr>)"
    by (simp add: sampleEntry_def)
  from m r1 r2 show ?thesis by simp
qed

section \<open>Schema anchoring\<close>

text \<open>
  Claim C9. For a schema that is already stored on the ledger, \<open>dispatchToChain\<close>
  returns the schema's \<open>$id\<close>; the only call made to the gateway is the storage query,
  no transaction is submitted and no error is raised.
\<close>

theorem dispatchToChain_stored_schema_is_returned:
  "uriToIdentifier E (map_of s ''$id'') = Inr ident \<and>
   schemas G (ledger w) ident = Inr (Some e) \<longrightarrow>
     dispatchToChain E G s acc w =
       (Inr (map_of s ''$id''), w\<lparr>calls := calls w @ [QuerySchemas ident]\<rparr>)"
  using dispatchToChain_stored[of E s ident G w e acc] by blast

theorem dispatchToChain_stored_schema_is_returned_witness:
  "schemas memGateway sampleLedger ''mS1'' \<noteq> Inr None \<and>
   dispatchToChain testEnv memGateway storedSchema1 ''alice'' sampleWorld =
     (Inr (Some (JStr ''schema:cord:mS1'')),
      \<lparr>ledger = sampleLedger, calls = [QuerySchemas ''mS1'']\<rparr>)"
proof -
  let ?e = "\<lparr>storedSchema = ''oA=='', schemaDigest = ''0x02'', schemaCreator = ''alice''\<rparr>"
  have i: "uriToIdentifier testEnv (map_of storedSchema1 ''$id'') = Inr ''mS1''"
    by (simp add: testEnv_def storedSchema1_def lastSegment_def)
  have q: "schemas memGateway (ledger sampleWorld) ''mS1'' = Inr (Some ?e)"
    by (simp add: memGateway_def sampleWorld_def sampleLedger_def)
  from dispatchToChain_stored_schema_is_returned[of testEnv storedSchema1 "''mS1''" memGateway
      sampleWorld ?e "''alice''"] i q
  show ?thesis by (simp add: storedSchema1_def sampleWorld_def memGateway_def sampleLedger_def)
qed

section \<open>What is hashed\<close>

text \<open>
  Claim C3, as stated, fails: the digest of \<open>getHashForSchema\<close> and of \<open>getUriForSchema\<close>
  is not the hash of the raw CBOR bytes. With a hash that has no collisions the two
  differ on a one-property record.
\<close>

theorem schema_digest_of_raw_cbor_counterexample:
  "getHashForSchema testEnv tinySchema \<noteq> blake2AsHex testEnv (canonicalBytes testEnv tinySchema) \<and>
   snd (getUriForSchema testEnv tinySchema) \<noteq> blake2AsHex testEnv (canonicalBytes testEnv tinySchema) \<and>
   getHashForSchema testEnv tinySchema = blake2AsHex testEnv (stringToU8a ''oWV0aXRsZWFU'')"
proof -
  have h: "getHashForSchema testEnv tinySchema = blake2AsHex testEnv (stringToU8a ''oWV0aXRsZWFU'')"
    using tinySchema_encoded by (simp add: getHashForSchema_def hashStr_def)
  have d: "snd (getUriForSchema testEnv tinySchema) = getHashForSchema testEnv tinySchema"
    by (simp add: getUriForSchema_def getHashForSchema_def Let_def)
  have b: "blake2AsHex testEnv = u8aToHex" by (simp add: testEnv_def)
  have l: "length (blake2AsHex testEnv (stringToU8a ''oWV0aXRsZWFU'')) = 26"
    by (simp add: b u8aToHex_def tinySchema_hashed_bytes)
  have r: "length (blake2AsHex testEnv (canonicalBytes testEnv tinySchema)) = 20"
    by (simp add: b u8aToHex_def tinySchema_canonicalBytes)
  have "blake2AsHex testEnv (stringToU8a ''oWV0aXRsZWFU'') \<noteq>
      blake2AsHex testEnv (canonicalBytes testEnv tinySchema)"
  proof
    assume "blake2AsHex testEnv (stringToU8a ''oWV0aXRsZWFU'') =
      blake2AsHex testEnv (canonicalBytes testEnv tinySchema)"
    with l r have "(26::nat) = 20" by simp
    then show False by simp
  qed
  with h d show ?thesis by simp
qed

text \<open>
  Claim C3, amended. \<open>getHashForSchema\<close> hashes the bytes of the base64 text of the
  canonical CBOR form; \<open>getUriForSchema\<close> returns that same digest and derives the URI from
  the hash of the SCALE \<open>Bytes\<close> encoding of the same base64 text. The base64 text is
  never equal to the raw bytes it encodes, unless they are empty.
\<close>

theorem schema_digest_hashes_transport_text:
  "getHashForSchema E r = blake2AsHex E (stringToU8a (toBase64 (canonicalBytes E r))) \<and>
   getUriForSchema E r =
     (hashToUri E (blake2AsHex E (createTypeBytes E (toBase64 (canonicalBytes E r))))
        SCHEMA_ACCOUNTS_IDENT (SCHEMA_PREFIX E),
      blake2AsHex E (stringToU8a (toBase64 (canonicalBytes E r)))) \<and>
   (canonicalBytes E r \<noteq> [] \<longrightarrow> stringToU8a (toBase64 (canonicalBytes E r)) \<noteq> canonicalBytes E r)"
  using toBase64_not_raw[of "canonicalBytes E r"]
  by (simp add: getHashForSchema_def getUriForSchema_def hashStr_def encodeCborSchema_def
      canonicalBytes_def Let_def)

theorem schema_digest_hashes_transport_text_witness:
  "canonicalBytes testEnv tinySchema = [0xA1, 0x65, 0x74, 0x69, 0x74, 0x6C, 0x65, 0x61, 0x54] \<and>
   toBase64 (canonicalBytes testEnv tinySchema) = ''oWV0aXRsZWFU'' \<and>
   getHashForSchema testEnv tinySchema = blake2AsHex testEnv (stringToU8a ''oWV0aXRsZWFU'') \<and>
   stringToU8a ''oWV0aXRsZWFU'' \<noteq> canonicalBytes testEnv tinySchema"
proof -
  have e: "toBase64 (canonicalBytes testEnv tinySchema) = ''oWV0aXRsZWFU''"
    using tinySchema_encoded by (simp add: encodeCborSchema_def canonicalBytes_def)
  have n: "canonicalBytes testEnv tinySchema \<noteq> []" using tinySchema_canonicalBytes by simp
  from schema_digest_hashes_transport_text[of testEnv tinySchema] n e tinySchema_canonicalBytes
  show ?thesis by simp
qed

section \<open>Authorization identifier\<close>





section \<open>Structural validation\<close>

text \<open>
  Claim C7. A record whose \<open>$schema\<close> field is not the identifier of the recognized
  meta-schema, \<open>http://cord.network/draft-01/schema#\<close> (absent or different), fails the
  validation against \<open>SchemaModel\<close>, and \<open>verifyObjectAgainstSchema\<close> raises
  \<open>ObjectUnverifiableError\<close>; whatever validates is an object that declares the
  recognized version.
\<close>

theorem unrecognized_meta_schema_is_rejected:
  "(map_of r ''$schema'' \<noteq> Some (JStr SchemaModelV1_id) \<longrightarrow>
      \<not> SchemaModel E (JObj r) \<and>
      verifyObjectAgainstSchema (JsonValue (JObj r)) (SchemaModel E) =
        Inl (ObjectUnverifiableError ''JSON schema verification failed for object'')) \<and>
   (verifyObjectAgainstSchema x (SchemaModel E) = Inr () \<longrightarrow>
      (\<exists>r'. x = JsonValue (JObj r') \<and>
            map_of r' ''$schema'' = Some (JStr ''http://cord.network/draft-01/schema#'')))"
proof -
  have a: "map_of r ''$schema'' \<noteq> Some (JStr SchemaModelV1_id) \<longrightarrow> \<not> SchemaModel E (JObj r)"
    using SchemaModel_declares_version[of E "JObj r"] by auto
  have b: "verifyObjectAgainstSchema x (SchemaModel E) = Inr () \<longrightarrow>
      (\<exists>j. x = JsonValue j \<and> SchemaModel E j)"
    by (cases x) (simp_all add: verifyObjectAgainstSchema_def validate_def bindE_def split: if_splits)
  have c: "\<And>j. SchemaModel E j \<Longrightarrow>
      \<exists>r'. j = JObj r' \<and> map_of r' ''$schema'' = Some (JStr ''http://cord.network/draft-01/schema#'')"
    using SchemaModel_declares_version[of E] by (simp add: SchemaModelV1_id_def)
  from a have a': "map_of r ''$schema'' \<noteq> Some (JStr SchemaModelV1_id) \<longrightarrow>
      \<not> SchemaModel E (JObj r) \<and>
      verifyObjectAgainstSchema (JsonValue (JObj r)) (SchemaModel E) =
        Inl (ObjectUnverifiableError ''JSON schema verification failed for object'')"
    by (simp add: verifyObjectAgainstSchema_def validate_def bindE_def)
  from b c have b': "verifyObjectAgainstSchema x (SchemaModel E) = Inr () \<longrightarrow>
      (\<exists>r'. x = JsonValue (JObj r') \<and>
            map_of r' ''$schema'' = Some (JStr ''http://cord.network/draft-01/schema#''))"
    by blast
  from a' b' show ?thesis by (rule conjI)
qed

theorem unrecognized_meta_schema_is_rejected_witness:
  "map_of futureSchema ''$schema'' = Some (JStr ''http://cord.network/draft-02/schema#'') \<and>
   verifyObjectAgainstSchema (JsonValue (JObj futureSchema)) (SchemaModel testEnv) =
     Inl (ObjectUnverifiableError ''JSON schema verification failed for object'') \<and>
   verifyObjectAgainstSchema (JsonValue (JObj builtSchema)) (SchemaModel testEnv) = Inr () \<and>
   map_of builtSchema ''$schema'' = Some (JStr ''http://cord.network/draft-01/schema#'')"
proof -
  have f: "map_of futureSchema ''$schema'' = Some (JStr ''http://cord.network/draft-02/schema#'')"
    by (simp add: futureSchema_def)
  then have ne: "map_of futureSchema ''$schema'' \<noteq> Some (JStr SchemaModelV1_id)"
    by (simp add: SchemaModelV1_id_def)
  have v: "verifyObjectAgainstSchema (JsonValue (JObj builtSchema)) (SchemaModel testEnv) = Inr ()"
    using builtSchema_valid by (simp add: verifyObjectAgainstSchema_def validate_def bindE_def)
  from unrecognized_meta_schema_is_rejected[of futureSchema testEnv "JsonValue (JObj builtSchema)"] ne v
  have r: "verifyObjectAgainstSchema (JsonValue (JObj futureSchema)) (SchemaModel testEnv) =
     Inl (ObjectUnverifiableError ''JSON schema verification failed for object'')"
    and b: "map_of builtSchema ''$schema'' = Some (JStr ''http://cord.network/draft-01/schema#'')"
    by auto
  from f r v b show ?thesis by blast
qed

text \<open>
  Claim C10. \<open>isISchema\<close> never throws: for every input value, JSON or not, it returns a
  boolean. It returns false exactly when \<open>verifyDataStructure\<close> raises, whatever the error
  is (the \<open>ObjectUnverifiableError\<close> of a value that does not validate, or the plain
  \<open>Error\<close> of the validator on a value that is not JSON), and true exactly when
  \<open>verifyDataStructure\<close> returns, that is for the JSON values that validate against
  \<open>SchemaModel\<close>.
\<close>

theorem isISchema_total:
  "(\<exists>b. isISchema E input = Inr b) \<and>
   (isISchema E input = Inr False \<longleftrightarrow> (\<exists>e. verifyDataStructure E input = Inl e)) \<and>
   (isISchema E input = Inr True \<longleftrightarrow> verifyDataStructure E input = Inr ()) \<and>
   (isISchema E input = Inr True \<longleftrightarrow> (\<exists>j. input = JsonValue j \<and> SchemaModel E j)) \<and>
   ((\<forall>j. input \<noteq> JsonValue j) \<longrightarrow>
      verifyDataStructure E input =
        Inl (JsError (''Instances of \"'' @ typeof input @ ''\" type are not supported.'')) \<and>
      isISchema E input = Inr False)"
proof -
  have v: "verifyDataStructure E input =
      (case input of
         JsonValue j \<Rightarrow>
           if SchemaModel E j then Inr ()
           else Inl (ObjectUnverifiableError ''JSON schema verification failed for object'')
       | _ \<Rightarrow> Inl (JsError (''Instances of \"'' @ typeof input @ ''\" type are not supported.'')))"
    by (cases input)
       (simp_all add: verifyDataStructure_def verifyObjectAgainstSchema_def validate_def bindE_def)
  show ?thesis
    using v by (cases input) (auto simp: isISchema_def tryCatch_def bindE_def)
qed

theorem isISchema_total_witness:
  "isISchema testEnv (JsonValue (JObj builtSchema)) = Inr True \<and>
   verifyDataStructure testEnv (JsonValue (JObj builtSchema)) = Inr () \<and>
   isISchema testEnv (JsonValue (JNum 3)) = Inr False \<and>
   verifyDataStructure testEnv (JsonValue (JNum 3)) =
     Inl (ObjectUnverifiableError ''JSON schema verification failed for object'') \<and>
   isISchema testEnv (JsonValue (JObj futureSchema)) = Inr False \<and>
   isISchema testEnv JsUndefined = Inr False \<and>
   verifyDataStructure testEnv JsUndefined =
     Inl (JsError ''Instances of \"undefined\" type are not supported.'')"
proof -
  have n: "\<not> SchemaModel testEnv (JNum 3)"
    by (simp add: SchemaModel_def SchemaModelV1_def allOf_def typeObject_def)
  have "map_of futureSchema ''$schema'' \<noteq> Some (JStr SchemaModelV1_id)"
    by (simp add: futureSchema_def SchemaModelV1_id_def)
  then have f: "\<not> SchemaModel testEnv (JObj futureSchema)"
    using SchemaModel_declares_version[of testEnv "JObj futureSchema"] by auto
  from isISchema_total[of testEnv "JsonValue (JObj builtSchema)"] builtSchema_valid
  have a: "isISchema testEnv (JsonValue (JObj builtSchema)) = Inr True"
    and b: "verifyDataStructure testEnv (JsonValue (JObj builtSchema)) = Inr ()" by auto
  from isISchema_total[of testEnv "JsonValue (JNum 3)"] n
  have c: "isISchema testEnv (JsonValue (JNum 3)) = Inr False" by auto
  have d: "verifyDataStructure testEnv (JsonValue (JNum 3)) =
     Inl (ObjectUnverifiableError ''JSON schema verification failed for object'')"
    using n by (simp add: verifyDataStructure_def verifyObjectAgainstSchema_def validate_def bindE_def)
  from isISchema_total[of testEnv "JsonValue (JObj futureSchema)"] f
  have e: "isISchema testEnv (JsonValue (JObj futureSchema)) = Inr False" by auto
  from isISchema_total[of testEnv JsUndefined]
  have g: "isISchema testEnv JsUndefined = Inr False"
    and h: "verifyDataStructure testEnv JsUndefined =
     Inl (JsError ''Instances of \"undefined\" type are not supported.'')" by simp_all
  from a b c d e g h show ?thesis by blast
qed

section \<open>Self-certification\<close>





end
